theory Spec2Isabelle
  imports Main
begin

section \<open>Common notions\<close>

text \<open>
  Objects live in a store and are known by their address. A store is a list, an address
  is an index into it, and \<open>new\<close> appends: the address of the new object is the length of
  the store before the allocation. Two objects are the same instance exactly when their
  addresses are equal.
\<close>

type_synonym ref = nat

text \<open>A thrown \<open>new Error(message)\<close>.\<close>

datatype error = Error string

text \<open>
  A static field or variable that holds an object, \<open>null\<close> or \<open>undefined\<close>
  (\<open>private static instance: Singleton\<close> starts \<open>undefined\<close>, \<open>reset\<close> stores
  \<open>null\<close>).
\<close>

datatype slot = Undefined | Null | Obj ref

text \<open>\<open>!x\<close> for such a field: an object is truthy, \<open>null\<close> and \<open>undefined\<close> are not.\<close>

fun falsy :: "slot \<Rightarrow> bool" where
  "falsy Undefined = True"
| "falsy Null = True"
| "falsy (Obj r) = False"

section \<open>creational/singleton: class Singleton\<close>

text \<open>
  An instance of \<open>Singleton\<close>: its three readonly fields \<open>name\<close>, \<open>category\<close> and
  \<open>description\<close> (of the interface \<open>Pattern\<close>).
\<close>

record Singleton =
  pattern_name :: string
  pattern_category :: string
  pattern_description :: string

text \<open>
  The statics of the class (\<open>Singleton.instance\<close>, \<open>Singleton.isCreating\<close>) and the
  store of the \<open>Singleton\<close> objects constructed so far.
\<close>

record Singleton_class =
  Singleton_instance :: slot
  Singleton_isCreating :: bool
  Singleton_objects :: "Singleton list"

definition Singleton_init :: Singleton_class where
  "Singleton_init =
     \<lparr>Singleton_instance = Undefined, Singleton_isCreating = False, Singleton_objects = []\<rparr>"

definition ConstructionForbidden :: error where
  "ConstructionForbidden =
     Error ''Cannot instantiate Singleton directly. Use getInstance() instead.''"

text \<open>
  \<open>new Singleton()\<close>: the constructor throws unless \<open>Singleton.isCreating\<close> is set;
  otherwise the object with its field initialisers is in the store at a fresh address.
\<close>

definition Singleton_new :: "Singleton_class \<Rightarrow> (error + ref) \<times> Singleton_class" where
  "Singleton_new s =
     (if \<not> Singleton_isCreating s then (Inl ConstructionForbidden, s)
      else (Inr (length (Singleton_objects s)),
            s\<lparr>Singleton_objects := Singleton_objects s @
                 [\<lparr>pattern_name = ''Singleton'', pattern_category = ''Creational'',
                   pattern_description = ''Ensures a class has only one instance and provides global access to it''\<rparr>]\<rparr>))"

text \<open>
  \<open>Singleton.getInstance()\<close>. An exception of the constructor would leave the method
  before \<open>isCreating\<close> is cleared; that branch is kept.
\<close>

definition Singleton_getInstance :: "Singleton_class \<Rightarrow> (error + slot) \<times> Singleton_class" where
  "Singleton_getInstance s =
     (if falsy (Singleton_instance s) then
        (let s1 = s\<lparr>Singleton_isCreating := True\<rparr> in
         case Singleton_new s1 of
           (Inl e, s2) \<Rightarrow> (Inl e, s2)
         | (Inr r, s2) \<Rightarrow>
             (let s3 = s2\<lparr>Singleton_instance := Obj r\<rparr>;
                  s4 = s3\<lparr>Singleton_isCreating := False\<rparr>
              in (Inr (Singleton_instance s4), s4)))
      else (Inr (Singleton_instance s), s))"

text \<open>\<open>Singleton.reset()\<close>.\<close>

definition Singleton_reset :: "Singleton_class \<Rightarrow> Singleton_class" where
  "Singleton_reset s = s\<lparr>Singleton_instance := Null\<rparr>"

text \<open>
  What a client can do with the class, and a run of such calls from a given state of the
  class. \<open>CallNew\<close> is a direct \<open>new Singleton()\<close> from outside the class (the test
  suite does it under \<open>@ts-ignore\<close>).
\<close>

datatype Singleton_call = CallGetInstance | CallReset | CallNew

fun Singleton_step :: "Singleton_call \<Rightarrow> Singleton_class \<Rightarrow> Singleton_class" where
  "Singleton_step CallGetInstance s = snd (Singleton_getInstance s)"
| "Singleton_step CallReset s = Singleton_reset s"
| "Singleton_step CallNew s = snd (Singleton_new s)"

fun Singleton_run :: "Singleton_call list \<Rightarrow> Singleton_class \<Rightarrow> Singleton_class" where
  "Singleton_run [] s = s"
| "Singleton_run (c # cs) s = Singleton_run cs (Singleton_step c s)"

section \<open>creational/singleton: class LazySingleton\<close>

record LazySingleton =
  data :: string

record LazySingleton_class =
  LazySingleton_instance :: slot
  LazySingleton_objects :: "LazySingleton list"

definition LazySingleton_init :: LazySingleton_class where
  "LazySingleton_init = \<lparr>LazySingleton_instance = Null, LazySingleton_objects = []\<rparr>"

text \<open>
  \<open>new LazySingleton()\<close>. The constructor reads the clock; \<open>now\<close> is what
  \<open>new Date().toISOString()\<close> returns at that moment.
\<close>

definition LazySingleton_new :: "string \<Rightarrow> LazySingleton_class \<Rightarrow> ref \<times> LazySingleton_class" where
  "LazySingleton_new now s =
     (length (LazySingleton_objects s),
      s\<lparr>LazySingleton_objects := LazySingleton_objects s @ [\<lparr>data = ''Created at '' @ now\<rparr>]\<rparr>)"

text \<open>The static getter \<open>LazySingleton.instance\<close>.\<close>

definition LazySingleton_get_instance :: "string \<Rightarrow> LazySingleton_class \<Rightarrow> slot \<times> LazySingleton_class" where
  "LazySingleton_get_instance now s =
     (if falsy (LazySingleton_instance s) then
        (case LazySingleton_new now s of
           (r, s1) \<Rightarrow>
             (let s2 = s1\<lparr>LazySingleton_instance := Obj r\<rparr>
              in (LazySingleton_instance s2, s2)))
      else (LazySingleton_instance s, s))"

definition LazySingleton_reset :: "LazySingleton_class \<Rightarrow> LazySingleton_class" where
  "LazySingleton_reset s = s\<lparr>LazySingleton_instance := Null\<rparr>"

section \<open>creational/singleton: class SingletonRegistry\<close>

text \<open>
  The registry stores values of type \<open>any\<close>: a JavaScript value is \<open>undefined\<close>,
  \<open>null\<close>, a primitive, or the address of an object.
\<close>

datatype jsval = JUndefined | JNull | JBool bool | JStr string | JObj ref

text \<open>
  The static \<open>SingletonRegistry.instances\<close> (a \<open>Map<string, any>\<close>, read and written
  with \<open>has\<close>, \<open>get\<close>, \<open>set\<close>, \<open>delete\<close> and \<open>clear\<close> only), and \<open>world\<close>: the rest
  of the program state, which a factory may read and write.
\<close>

record 'w SingletonRegistry_class =
  instances :: "string \<rightharpoonup> jsval"
  world :: 'w

text \<open>
  A factory \<open>() => T\<close> is a closure: it runs on the whole state, the registry included,
  and either throws (\<open>Inl\<close>) or returns a value (\<open>Inr\<close>).
\<close>

type_synonym ('e, 'w) factory =
  "'w SingletonRegistry_class \<Rightarrow> ('e + jsval) \<times> 'w SingletonRegistry_class"

text \<open>\<open>Map.prototype.get\<close>: \<open>undefined\<close> for a key that is not in the map.\<close>

definition Map_get :: "(string \<rightharpoonup> jsval) \<Rightarrow> string \<Rightarrow> jsval" where
  "Map_get m k = (case m k of None \<Rightarrow> JUndefined | Some v \<Rightarrow> v)"

text \<open>\<open>Map.prototype.has\<close>.\<close>

definition Map_has :: "(string \<rightharpoonup> jsval) \<Rightarrow> string \<Rightarrow> bool" where
  "Map_has m k = (case m k of None \<Rightarrow> False | Some v \<Rightarrow> True)"

text \<open>
  \<open>SingletonRegistry.getInstance(key, factory)\<close>. The factory runs before \<open>set\<close>, on the
  state of the call; \<open>set\<close> writes into the map as the factory left it.
\<close>

definition SingletonRegistry_getInstance ::
  "string \<Rightarrow> ('e, 'w) factory \<Rightarrow> 'w SingletonRegistry_class \<Rightarrow>
   ('e + jsval) \<times> 'w SingletonRegistry_class" where
  "SingletonRegistry_getInstance key factory s =
     (if \<not> Map_has (instances s) key then
        (case factory s of
           (Inl e, s1) \<Rightarrow> (Inl e, s1)
         | (Inr v, s1) \<Rightarrow>
             (let s2 = s1\<lparr>instances := (instances s1)(key \<mapsto> v)\<rparr>
              in (Inr (Map_get (instances s2) key), s2)))
      else (Inr (Map_get (instances s) key), s))"

definition SingletonRegistry_reset ::
  "string \<Rightarrow> 'w SingletonRegistry_class \<Rightarrow> 'w SingletonRegistry_class" where
  "SingletonRegistry_reset key s = s\<lparr>instances := (instances s)(key := None)\<rparr>"

definition SingletonRegistry_resetAll ::
  "'w SingletonRegistry_class \<Rightarrow> 'w SingletonRegistry_class" where
  "SingletonRegistry_resetAll s = s\<lparr>instances := Map.empty\<rparr>"

definition SingletonRegistry_hasInstance ::
  "string \<Rightarrow> 'w SingletonRegistry_class \<Rightarrow> bool" where
  "SingletonRegistry_hasInstance key s = Map_has (instances s) key"

text \<open>The calls a client can make on the registry, and a run of such calls.\<close>

datatype ('e, 'w) Registry_call =
  CallGet string "('e, 'w) factory"
| CallResetKey string
| CallResetAll
| CallHas string

fun Registry_step ::
  "('e, 'w) Registry_call \<Rightarrow> 'w SingletonRegistry_class \<Rightarrow> 'w SingletonRegistry_class" where
  "Registry_step (CallGet k f) s = snd (SingletonRegistry_getInstance k f s)"
| "Registry_step (CallResetKey k) s = SingletonRegistry_reset k s"
| "Registry_step CallResetAll s = SingletonRegistry_resetAll s"
| "Registry_step (CallHas k) s = s"

fun Registry_run ::
  "('e, 'w) Registry_call list \<Rightarrow> 'w SingletonRegistry_class \<Rightarrow> 'w SingletonRegistry_class" where
  "Registry_run [] s = s"
| "Registry_run (c # cs) s = Registry_run cs (Registry_step c s)"

text \<open>
  A factory keeps the entry of \<open>key\<close> when running it never removes or replaces a value
  that the registry holds under \<open>key\<close>: the factory makes no \<open>reset(key)\<close> and no
  \<open>resetAll()\<close> of its own.
\<close>

definition keeps_entry :: "string \<Rightarrow> ('e, 'w) factory \<Rightarrow> bool" where
  "keeps_entry key f =
     (\<forall>s v. instances s key = Some v \<longrightarrow> instances (snd (f s)) key = Some v)"

text \<open>
  The factory of the test suite, \<open>() => new TestSingleton()\<close>, on a world that is the
  number of objects allocated so far: it returns the address of a new object.
\<close>

definition new_object_factory :: "(error, nat) factory" where
  "new_object_factory s = (Inr (JObj (world s)), s\<lparr>world := Suc (world s)\<rparr>)"

text \<open>A factory that throws, as \<open>() => { throw new Error(...) }\<close>.\<close>

definition throwing_factory :: "(error, nat) factory" where
  "throwing_factory s = (Inl (Error ''factory failed''), s)"

text \<open>A call that is no reset of \<open>key\<close>, neither itself nor through its factory.\<close>

fun no_reset_of :: "string \<Rightarrow> ('e, 'w) Registry_call \<Rightarrow> bool" where
  "no_reset_of key (CallGet k f) = keeps_entry key f"
| "no_reset_of key (CallResetKey k) = (k \<noteq> key)"
| "no_reset_of key CallResetAll = False"
| "no_reset_of key (CallHas k) = True"

section \<open>creational/builder: class Computer\<close>

text \<open>
  A parameter or field declared \<open>x?: string\<close> is a \<open>string option\<close>: \<open>None\<close> is
  \<open>undefined\<close>. Truthiness (\<open>if (x)\<close>, \<open>!x\<close>): the empty string and \<open>undefined\<close> are
  falsy, every other string is truthy.
\<close>

definition truthy :: "string \<Rightarrow> bool" where
  "truthy x = (x \<noteq> [])"

definition truthy_opt :: "string option \<Rightarrow> bool" where
  "truthy_opt x = (case x of None \<Rightarrow> False | Some v \<Rightarrow> truthy v)"

record Computer =
  name :: string
  features :: "string list"
  cpu :: string
  ram :: string
  storage :: string
  gpu :: "string option"
  powerSupply :: "string option"
  motherboard :: "string option"

text \<open>\<open>if (x) this.features.push(x)\<close>, as the list of what is pushed.\<close>

definition push_if :: "string option \<Rightarrow> string list" where
  "push_if x = (case x of None \<Rightarrow> [] | Some v \<Rightarrow> if truthy v then [v] else [])"

text \<open>The constructor of \<open>Computer\<close>, as the value of the object it initialises.\<close>

definition Computer_ctor ::
  "string \<Rightarrow> string \<Rightarrow> string \<Rightarrow> string option \<Rightarrow> string option \<Rightarrow> string option \<Rightarrow> Computer" where
  "Computer_ctor c r s g p m =
     \<lparr>name = ''Custom Computer'',
      features = [c, r, s] @ push_if g @ push_if p @ push_if m,
      cpu = c, ram = r, storage = s, gpu = g, powerSupply = p, motherboard = m\<rparr>"

text \<open>
  The store of the builder module: the builder objects of one class \<open>'b\<close> and the
  \<open>Computer\<close> objects built so far.
\<close>

record 'b heap =
  builders :: "'b list"
  computers :: "Computer list"

text \<open>\<open>new Computer(...)\<close>: the new object is at a fresh address.\<close>

definition Computer_new ::
  "string \<Rightarrow> string \<Rightarrow> string \<Rightarrow> string option \<Rightarrow> string option \<Rightarrow> string option \<Rightarrow>
   'b heap \<Rightarrow> ref \<times> 'b heap" where
  "Computer_new c r s g p m h =
     (length (computers h), h\<lparr>computers := computers h @ [Computer_ctor c r s g p m]\<rparr>)"

definition RequiredFieldsError :: error where
  "RequiredFieldsError = Error ''CPU, RAM, and Storage are required''"

section \<open>creational/builder: class ConcreteComputerBuilder\<close>

text \<open>
  The private fields \<open>cpu\<close>, \<open>ram\<close>, \<open>storage\<close>, \<open>gpu\<close>, \<open>powerSupply\<close> and
  \<open>motherboard\<close> of a builder, written \<open>this_cpu\<close> and so on. The readonly fields
  \<open>name\<close>, \<open>category\<close> and \<open>description\<close> are constants that no method reads or
  writes; they are left out.
\<close>

record ConcreteComputerBuilder =
  this_cpu :: string
  this_ram :: string
  this_storage :: string
  this_gpu :: "string option"
  this_powerSupply :: "string option"
  this_motherboard :: "string option"

text \<open>The field initialisers: what a builder holds right after \<open>new\<close>.\<close>

definition ConcreteComputerBuilder_fresh :: ConcreteComputerBuilder where
  "ConcreteComputerBuilder_fresh =
     \<lparr>this_cpu = [], this_ram = [], this_storage = [],
      this_gpu = None, this_powerSupply = None, this_motherboard = None\<rparr>"

definition ConcreteComputerBuilder_new ::
  "ConcreteComputerBuilder heap \<Rightarrow> ref \<times> ConcreteComputerBuilder heap" where
  "ConcreteComputerBuilder_new h =
     (length (builders h), h\<lparr>builders := builders h @ [ConcreteComputerBuilder_fresh]\<rparr>)"

text \<open>
  Each method takes \<open>this\<close>, the address of the builder it is called on, and returns the
  address it returns (\<open>return this\<close>) with the store after the call.
\<close>

definition setCPU :: "ref \<Rightarrow> string \<Rightarrow> ConcreteComputerBuilder heap \<Rightarrow> ref \<times> ConcreteComputerBuilder heap" where
  "setCPU this v h = (this, h\<lparr>builders := (builders h)[this := (builders h ! this)\<lparr>this_cpu := v\<rparr>]\<rparr>)"

definition setRAM :: "ref \<Rightarrow> string \<Rightarrow> ConcreteComputerBuilder heap \<Rightarrow> ref \<times> ConcreteComputerBuilder heap" where
  "setRAM this v h = (this, h\<lparr>builders := (builders h)[this := (builders h ! this)\<lparr>this_ram := v\<rparr>]\<rparr>)"

definition setStorage :: "ref \<Rightarrow> string \<Rightarrow> ConcreteComputerBuilder heap \<Rightarrow> ref \<times> ConcreteComputerBuilder heap" where
  "setStorage this v h = (this, h\<lparr>builders := (builders h)[this := (builders h ! this)\<lparr>this_storage := v\<rparr>]\<rparr>)"

definition setGPU :: "ref \<Rightarrow> string \<Rightarrow> ConcreteComputerBuilder heap \<Rightarrow> ref \<times> ConcreteComputerBuilder heap" where
  "setGPU this v h = (this, h\<lparr>builders := (builders h)[this := (builders h ! this)\<lparr>this_gpu := Some v\<rparr>]\<rparr>)"

definition setPowerSupply :: "ref \<Rightarrow> string \<Rightarrow> ConcreteComputerBuilder heap \<Rightarrow> ref \<times> ConcreteComputerBuilder heap" where
  "setPowerSupply this v h = (this, h\<lparr>builders := (builders h)[this := (builders h ! this)\<lparr>this_powerSupply := Some v\<rparr>]\<rparr>)"

definition setMotherboard :: "ref \<Rightarrow> string \<Rightarrow> ConcreteComputerBuilder heap \<Rightarrow> ref \<times> ConcreteComputerBuilder heap" where
  "setMotherboard this v h = (this, h\<lparr>builders := (builders h)[this := (builders h ! this)\<lparr>this_motherboard := Some v\<rparr>]\<rparr>)"

text \<open>\<open>build()\<close>: one test of the three required fields, one error for all of them.\<close>

definition build :: "ref \<Rightarrow> ConcreteComputerBuilder heap \<Rightarrow> (error + ref) \<times> ConcreteComputerBuilder heap" where
  "build this h =
     (let b = builders h ! this in
      if \<not> truthy (this_cpu b) \<or> \<not> truthy (this_ram b) \<or> \<not> truthy (this_storage b)
      then (Inl RequiredFieldsError, h)
      else (case Computer_new (this_cpu b) (this_ram b) (this_storage b)
                   (this_gpu b) (this_powerSupply b) (this_motherboard b) h of
              (r, h1) \<Rightarrow> (Inr r, h1)))"

text \<open>\<open>reset()\<close>: all six fields become the empty string.\<close>

definition reset :: "ref \<Rightarrow> ConcreteComputerBuilder heap \<Rightarrow> ref \<times> ConcreteComputerBuilder heap" where
  "reset this h =
     (this, h\<lparr>builders := (builders h)[this := (builders h ! this)
        \<lparr>this_cpu := [], this_ram := [], this_storage := [],
         this_gpu := Some [], this_powerSupply := Some [], this_motherboard := Some []\<rparr>]\<rparr>)"

section \<open>creational/builder: class ComputerDirector\<close>

text \<open>
  The director holds the address of its builder. \<open>ConcreteComputerBuilder\<close> is the one
  class of the module that implements \<open>ComputerBuilder\<close>. Each call of a chain is made
  on the address the call before it returned.
\<close>

record ComputerDirector =
  builder :: ref

definition buildGamingComputer ::
  "ComputerDirector \<Rightarrow> ConcreteComputerBuilder heap \<Rightarrow> (error + ref) \<times> ConcreteComputerBuilder heap" where
  "buildGamingComputer d h =
     (case reset (builder d) h of (b0, h0) \<Rightarrow>
      case setCPU b0 ''Intel i9-11900K'' h0 of (b1, h1) \<Rightarrow>
      case setRAM b1 ''32GB DDR4'' h1 of (b2, h2) \<Rightarrow>
      case setStorage b2 ''1TB NVMe SSD'' h2 of (b3, h3) \<Rightarrow>
      case setGPU b3 ''RTX 3080'' h3 of (b4, h4) \<Rightarrow>
      case setPowerSupply b4 ''850W Gold'' h4 of (b5, h5) \<Rightarrow>
      case setMotherboard b5 ''ASUS ROG Strix Z590-E'' h5 of (b6, h6) \<Rightarrow>
      build b6 h6)"

definition buildOfficeComputer ::
  "ComputerDirector \<Rightarrow> ConcreteComputerBuilder heap \<Rightarrow> (error + ref) \<times> ConcreteComputerBuilder heap" where
  "buildOfficeComputer d h =
     (case reset (builder d) h of (b0, h0) \<Rightarrow>
      case setCPU b0 ''Intel i5-11400'' h0 of (b1, h1) \<Rightarrow>
      case setRAM b1 ''16GB DDR4'' h1 of (b2, h2) \<Rightarrow>
      case setStorage b2 ''512GB SSD'' h2 of (b3, h3) \<Rightarrow>
      case setMotherboard b3 ''MSI B560M Pro'' h3 of (b4, h4) \<Rightarrow>
      build b4 h4)"

definition buildServerComputer ::
  "ComputerDirector \<Rightarrow> ConcreteComputerBuilder heap \<Rightarrow> (error + ref) \<times> ConcreteComputerBuilder heap" where
  "buildServerComputer d h =
     (case reset (builder d) h of (b0, h0) \<Rightarrow>
      case setCPU b0 ''AMD EPYC 7742'' h0 of (b1, h1) \<Rightarrow>
      case setRAM b1 ''128GB DDR4 ECC'' h1 of (b2, h2) \<Rightarrow>
      case setStorage b2 ''2TB NVMe SSD'' h2 of (b3, h3) \<Rightarrow>
      case setPowerSupply b3 ''1200W Platinum'' h3 of (b4, h4) \<Rightarrow>
      case setMotherboard b4 ''Supermicro H12SSL-i'' h4 of (b5, h5) \<Rightarrow>
      build b5 h5)"

text \<open>The \<open>Computer\<close> that the constructor makes from the arguments of the gaming recipe.\<close>

definition gaming_computer :: Computer where
  "gaming_computer =
     Computer_ctor ''Intel i9-11900K'' ''32GB DDR4'' ''1TB NVMe SSD''
       (Some ''RTX 3080'') (Some ''850W Gold'') (Some ''ASUS ROG Strix Z590-E'')"

section \<open>creational/builder: class FluentComputerBuilder\<close>

text \<open>
  The private field \<open>computer: Partial<Computer>\<close>, initially \<open>{}\<close>: every property
  is optional. The methods write \<open>cpu\<close>, \<open>ram\<close>, \<open>storage\<close>, \<open>gpu\<close>,
  \<open>powerSupply\<close> and \<open>motherboard\<close> only, and \<open>build\<close> reads these six.
\<close>

record FluentComputerBuilder =
  computer_cpu :: "string option"
  computer_ram :: "string option"
  computer_storage :: "string option"
  computer_gpu :: "string option"
  computer_powerSupply :: "string option"
  computer_motherboard :: "string option"

definition FluentComputerBuilder_fresh :: FluentComputerBuilder where
  "FluentComputerBuilder_fresh =
     \<lparr>computer_cpu = None, computer_ram = None, computer_storage = None,
      computer_gpu = None, computer_powerSupply = None, computer_motherboard = None\<rparr>"

definition FluentComputerBuilder_new ::
  "FluentComputerBuilder heap \<Rightarrow> ref \<times> FluentComputerBuilder heap" where
  "FluentComputerBuilder_new h =
     (length (builders h), h\<lparr>builders := builders h @ [FluentComputerBuilder_fresh]\<rparr>)"

definition Fluent_cpu :: "ref \<Rightarrow> string \<Rightarrow> FluentComputerBuilder heap \<Rightarrow> ref \<times> FluentComputerBuilder heap" where
  "Fluent_cpu this v h = (this, h\<lparr>builders := (builders h)[this := (builders h ! this)\<lparr>computer_cpu := Some v\<rparr>]\<rparr>)"

definition Fluent_ram :: "ref \<Rightarrow> string \<Rightarrow> FluentComputerBuilder heap \<Rightarrow> ref \<times> FluentComputerBuilder heap" where
  "Fluent_ram this v h = (this, h\<lparr>builders := (builders h)[this := (builders h ! this)\<lparr>computer_ram := Some v\<rparr>]\<rparr>)"

definition Fluent_storage :: "ref \<Rightarrow> string \<Rightarrow> FluentComputerBuilder heap \<Rightarrow> ref \<times> FluentComputerBuilder heap" where
  "Fluent_storage this v h = (this, h\<lparr>builders := (builders h)[this := (builders h ! this)\<lparr>computer_storage := Some v\<rparr>]\<rparr>)"

definition Fluent_gpu :: "ref \<Rightarrow> string \<Rightarrow> FluentComputerBuilder heap \<Rightarrow> ref \<times> FluentComputerBuilder heap" where
  "Fluent_gpu this v h = (this, h\<lparr>builders := (builders h)[this := (builders h ! this)\<lparr>computer_gpu := Some v\<rparr>]\<rparr>)"

definition Fluent_powerSupply :: "ref \<Rightarrow> string \<Rightarrow> FluentComputerBuilder heap \<Rightarrow> ref \<times> FluentComputerBuilder heap" where
  "Fluent_powerSupply this v h = (this, h\<lparr>builders := (builders h)[this := (builders h ! this)\<lparr>computer_powerSupply := Some v\<rparr>]\<rparr>)"

definition Fluent_motherboard :: "ref \<Rightarrow> string \<Rightarrow> FluentComputerBuilder heap \<Rightarrow> ref \<times> FluentComputerBuilder heap" where
  "Fluent_motherboard this v h = (this, h\<lparr>builders := (builders h)[this := (builders h ! this)\<lparr>computer_motherboard := Some v\<rparr>]\<rparr>)"

text \<open>
  \<open>build()\<close>. After the test the three required values are strings; \<open>the\<close> is applied
  to them in that branch only, where \<open>truthy_opt\<close> has excluded \<open>None\<close>.
\<close>

definition Fluent_build :: "ref \<Rightarrow> FluentComputerBuilder heap \<Rightarrow> (error + ref) \<times> FluentComputerBuilder heap" where
  "Fluent_build this h =
     (let b = builders h ! this;
          cpu = computer_cpu b; ram = computer_ram b; storage = computer_storage b;
          gpu = computer_gpu b; powerSupply = computer_powerSupply b;
          motherboard = computer_motherboard b
      in if \<not> truthy_opt cpu \<or> \<not> truthy_opt ram \<or> \<not> truthy_opt storage
         then (Inl RequiredFieldsError, h)
         else (case Computer_new (the cpu) (the ram) (the storage) gpu powerSupply motherboard h of
                 (r, h1) \<Rightarrow> (Inr r, h1)))"

section \<open>creational/builder: class GenericBuilder\<close>

text \<open>
  The abstract class \<open>GenericBuilder<T>\<close>. Its two abstract methods are parameters:
  \<open>buildImplementation\<close> returns a product or throws, \<open>reset\<close> returns nothing or
  throws, and both run on the state \<open>'s\<close> of the program, the builder included.
  \<open>build()\<close> calls \<open>buildImplementation()\<close>, then \<open>this.reset()\<close>, then returns the
  product; an exception of either call leaves the method at once.
\<close>

definition GenericBuilder_build ::
  "('s \<Rightarrow> ('e + 't) \<times> 's) \<Rightarrow> ('s \<Rightarrow> ('e + unit) \<times> 's) \<Rightarrow> 's \<Rightarrow> ('e + 't) \<times> 's" where
  "GenericBuilder_build buildImplementation reset_method s =
     (case buildImplementation s of
        (Inl e, s1) \<Rightarrow> (Inl e, s1)
      | (Inr result, s1) \<Rightarrow>
          (case reset_method s1 of
             (Inl e, s2) \<Rightarrow> (Inl e, s2)
           | (Inr u, s2) \<Rightarrow> (Inr result, s2)))"

text \<open>
  A subclass of \<open>GenericBuilder<Computer>\<close> as a client would write it, with the six
  fields of \<open>ConcreteComputerBuilder\<close> as its state: \<open>buildImplementation\<close> makes the
  \<open>Computer\<close> value from the fields, \<open>reset\<close> puts back the field initialisers.
\<close>

definition Sample_buildImplementation ::
  "ConcreteComputerBuilder \<Rightarrow> (error + Computer) \<times> ConcreteComputerBuilder" where
  "Sample_buildImplementation b =
     (Inr (Computer_ctor (this_cpu b) (this_ram b) (this_storage b)
             (this_gpu b) (this_powerSupply b) (this_motherboard b)), b)"

definition Sample_reset ::
  "ConcreteComputerBuilder \<Rightarrow> (error + unit) \<times> ConcreteComputerBuilder" where
  "Sample_reset b = (Inr (), ConcreteComputerBuilder_fresh)"

section \<open>creational/builder: class StepComputerBuilder\<close>

record StepComputerBuilder =
  cpuValue :: string
  ramValue :: string
  storageValue :: string
  gpuValue :: "string option"
  powerSupplyValue :: "string option"
  motherboardValue :: "string option"

definition StepComputerBuilder_fresh :: StepComputerBuilder where
  "StepComputerBuilder_fresh =
     \<lparr>cpuValue = [], ramValue = [], storageValue = [],
      gpuValue = None, powerSupplyValue = None, motherboardValue = None\<rparr>"

text \<open>\<open>StepComputerBuilder.create()\<close>.\<close>

definition StepComputerBuilder_create ::
  "StepComputerBuilder heap \<Rightarrow> ref \<times> StepComputerBuilder heap" where
  "StepComputerBuilder_create h =
     (length (builders h), h\<lparr>builders := builders h @ [StepComputerBuilder_fresh]\<rparr>)"

definition Step_cpu :: "ref \<Rightarrow> string \<Rightarrow> StepComputerBuilder heap \<Rightarrow> ref \<times> StepComputerBuilder heap" where
  "Step_cpu this v h = (this, h\<lparr>builders := (builders h)[this := (builders h ! this)\<lparr>cpuValue := v\<rparr>]\<rparr>)"

definition Step_ram :: "ref \<Rightarrow> string \<Rightarrow> StepComputerBuilder heap \<Rightarrow> ref \<times> StepComputerBuilder heap" where
  "Step_ram this v h = (this, h\<lparr>builders := (builders h)[this := (builders h ! this)\<lparr>ramValue := v\<rparr>]\<rparr>)"

definition Step_storage :: "ref \<Rightarrow> string \<Rightarrow> StepComputerBuilder heap \<Rightarrow> ref \<times> StepComputerBuilder heap" where
  "Step_storage this v h = (this, h\<lparr>builders := (builders h)[this := (builders h ! this)\<lparr>storageValue := v\<rparr>]\<rparr>)"

definition Step_gpu :: "ref \<Rightarrow> string \<Rightarrow> StepComputerBuilder heap \<Rightarrow> ref \<times> StepComputerBuilder heap" where
  "Step_gpu this v h = (this, h\<lparr>builders := (builders h)[this := (builders h ! this)\<lparr>gpuValue := Some v\<rparr>]\<rparr>)"

definition Step_powerSupply :: "ref \<Rightarrow> string \<Rightarrow> StepComputerBuilder heap \<Rightarrow> ref \<times> StepComputerBuilder heap" where
  "Step_powerSupply this v h = (this, h\<lparr>builders := (builders h)[this := (builders h ! this)\<lparr>powerSupplyValue := Some v\<rparr>]\<rparr>)"

definition Step_motherboard :: "ref \<Rightarrow> string \<Rightarrow> StepComputerBuilder heap \<Rightarrow> ref \<times> StepComputerBuilder heap" where
  "Step_motherboard this v h = (this, h\<lparr>builders := (builders h)[this := (builders h ! this)\<lparr>motherboardValue := Some v\<rparr>]\<rparr>)"

definition Step_build :: "ref \<Rightarrow> StepComputerBuilder heap \<Rightarrow> (error + ref) \<times> StepComputerBuilder heap" where
  "Step_build this h =
     (let b = builders h ! this in
      if \<not> truthy (cpuValue b) \<or> \<not> truthy (ramValue b) \<or> \<not> truthy (storageValue b)
      then (Inl RequiredFieldsError, h)
      else (case Computer_new (cpuValue b) (ramValue b) (storageValue b)
                   (gpuValue b) (powerSupplyValue b) (motherboardValue b) h of
              (r, h1) \<Rightarrow> (Inr r, h1)))"

section \<open>Histories of setter calls on a ConcreteComputerBuilder\<close>

text \<open>
  The six fields of a builder and of a \<open>Computer\<close>. A setter call is the field it sets
  and the argument passed; a chain of setter calls \<open>b.setCPU(x).setGPU(y)...\<close> makes each
  call on the address the call before it returned.
\<close>

datatype field = CPU | RAM | Storage | GPU | PowerSupply | Motherboard

fun call_setter ::
  "field \<times> string \<Rightarrow> ref \<Rightarrow> ConcreteComputerBuilder heap \<Rightarrow> ref \<times> ConcreteComputerBuilder heap" where
  "call_setter (CPU, v) this h = setCPU this v h"
| "call_setter (RAM, v) this h = setRAM this v h"
| "call_setter (Storage, v) this h = setStorage this v h"
| "call_setter (GPU, v) this h = setGPU this v h"
| "call_setter (PowerSupply, v) this h = setPowerSupply this v h"
| "call_setter (Motherboard, v) this h = setMotherboard this v h"

fun call_chain ::
  "(field \<times> string) list \<Rightarrow> ref \<Rightarrow> ConcreteComputerBuilder heap \<Rightarrow>
   ref \<times> ConcreteComputerBuilder heap" where
  "call_chain [] this h = (this, h)"
| "call_chain (c # cs) this h =
     (case call_setter c this h of (this1, h1) \<Rightarrow> call_chain cs this1 h1)"

text \<open>The value last passed to the setter of a field in a chain; \<open>None\<close> when the chain never calls it.\<close>

definition last_passed :: "field \<Rightarrow> (field \<times> string) list \<Rightarrow> string option" where
  "last_passed f cs = map_of (rev cs) f"

text \<open>
  What a builder and a \<open>Computer\<close> hold in a field, as an optional string: \<open>None\<close> is
  \<open>undefined\<close> (the field is absent).
\<close>

fun builder_field :: "field \<Rightarrow> ConcreteComputerBuilder \<Rightarrow> string option" where
  "builder_field CPU b = Some (this_cpu b)"
| "builder_field RAM b = Some (this_ram b)"
| "builder_field Storage b = Some (this_storage b)"
| "builder_field GPU b = this_gpu b"
| "builder_field PowerSupply b = this_powerSupply b"
| "builder_field Motherboard b = this_motherboard b"

fun Computer_field :: "field \<Rightarrow> Computer \<Rightarrow> string option" where
  "Computer_field CPU c = Some (cpu c)"
| "Computer_field RAM c = Some (ram c)"
| "Computer_field Storage c = Some (storage c)"
| "Computer_field GPU c = gpu c"
| "Computer_field PowerSupply c = powerSupply c"
| "Computer_field Motherboard c = motherboard c"

text \<open>
  From the words of the specification (4.4): the first required field that is unset, in
  the order of declaration \<open>cpu\<close>, \<open>ram\<close>, \<open>storage\<close>; \<open>None\<close> when all three are set.
\<close>

definition spec_first_missing :: "ConcreteComputerBuilder \<Rightarrow> string option" where
  "spec_first_missing b =
     (if \<not> truthy (this_cpu b) then Some ''cpu''
      else if \<not> truthy (this_ram b) then Some ''ram''
      else if \<not> truthy (this_storage b) then Some ''storage''
      else None)"

section \<open>Properties of the singletons\<close>

lemma Singleton_getInstance_empty:
  "falsy (Singleton_instance s) \<Longrightarrow>
   Singleton_getInstance s =
     (Inr (Obj (length (Singleton_objects s))),
      \<lparr>Singleton_instance = Obj (length (Singleton_objects s)),
       Singleton_isCreating = False,
       Singleton_objects = Singleton_objects s @
         [\<lparr>pattern_name = ''Singleton'', pattern_category = ''Creational'',
           pattern_description = ''Ensures a class has only one instance and provides global access to it''\<rparr>]\<rparr>)"
  by (simp add: Singleton_getInstance_def Singleton_new_def Let_def)

lemma Singleton_getInstance_occupied:
  "Singleton_instance s = Obj r \<Longrightarrow> Singleton_getInstance s = (Inr (Obj r), s)"
  by (simp add: Singleton_getInstance_def)

lemma Singleton_step_isCreating:
  "\<not> Singleton_isCreating s \<Longrightarrow> \<not> Singleton_isCreating (Singleton_step c s)"
proof (cases c)
  case CallGetInstance
  assume idle: "\<not> Singleton_isCreating s"
  show ?thesis
  proof (cases "falsy (Singleton_instance s)")
    case True
    then show ?thesis
      using CallGetInstance by (simp add: Singleton_getInstance_empty)
  next
    case False
    then show ?thesis
      using CallGetInstance idle by (simp add: Singleton_getInstance_def)
  qed
next
  case CallReset
  assume "\<not> Singleton_isCreating s"
  then show ?thesis
    using CallReset by (simp add: Singleton_reset_def)
next
  case CallNew
  assume "\<not> Singleton_isCreating s"
  then show ?thesis
    using CallNew by (simp add: Singleton_new_def)
qed

lemma Singleton_run_isCreating:
  "\<not> Singleton_isCreating s \<Longrightarrow> \<not> Singleton_isCreating (Singleton_run cs s)"
proof (induction cs arbitrary: s)
  case Nil
  then show ?case by simp
next
  case (Cons c cs)
  from Cons.prems have "\<not> Singleton_isCreating (Singleton_step c s)"
    by (rule Singleton_step_isCreating)
  then show ?case
    using Cons.IH by simp
qed

text \<open>
  Claim C3. The constructor of \<open>Singleton\<close> throws the \<open>ConstructionForbidden\<close> error
  whenever \<open>Singleton.isCreating\<close> is not set, and it succeeds only when the flag is
  set. The flag is clear after every run of client calls (\<open>getInstance\<close>, \<open>reset\<close>,
  direct \<open>new\<close>) from the initial state of the class, so a direct \<open>new Singleton()\<close>
  made there throws and leaves the class as it was. Inside \<open>getInstance\<close>, on an
  empty slot, the construction succeeds and the new object is returned.
\<close>

theorem Singleton_constructor_guard:
  "(\<not> Singleton_isCreating s \<longrightarrow> Singleton_new s = (Inl ConstructionForbidden, s)) \<and>
   ((\<exists>r. fst (Singleton_new s) = Inr r) \<longleftrightarrow> Singleton_isCreating s) \<and>
   Singleton_new (Singleton_run cs Singleton_init) =
     (Inl ConstructionForbidden, Singleton_run cs Singleton_init) \<and>
   (falsy (Singleton_instance s) \<longrightarrow>
      fst (Singleton_getInstance s) = Inr (Obj (length (Singleton_objects s))) \<and>
      length (Singleton_objects (snd (Singleton_getInstance s))) =
        Suc (length (Singleton_objects s)))"
proof -
  have idle: "\<not> Singleton_isCreating (Singleton_run cs Singleton_init)"
    by (rule Singleton_run_isCreating) (simp add: Singleton_init_def)
  have direct: "Singleton_new t = (Inl ConstructionForbidden, t)" if "\<not> Singleton_isCreating t" for t
    using that by (simp add: Singleton_new_def)
  have only: "(\<exists>r. fst (Singleton_new s) = Inr r) \<longleftrightarrow> Singleton_isCreating s"
    by (simp add: Singleton_new_def)
  have via: "fst (Singleton_getInstance s) = Inr (Obj (length (Singleton_objects s))) \<and>
      length (Singleton_objects (snd (Singleton_getInstance s))) =
        Suc (length (Singleton_objects s))" if "falsy (Singleton_instance s)"
    using that by (simp add: Singleton_getInstance_empty)
  show ?thesis
    using direct [of s] direct [OF idle] only via by blast
qed

theorem Singleton_constructor_guard_witness:
  "Singleton_new Singleton_init = (Inl ConstructionForbidden, Singleton_init) \<and>
   Singleton_new (Singleton_run [CallGetInstance, CallNew, CallReset] Singleton_init) =
     (Inl ConstructionForbidden,
      \<lparr>Singleton_instance = Null, Singleton_isCreating = False,
       Singleton_objects = [\<lparr>pattern_name = ''Singleton'', pattern_category = ''Creational'',
          pattern_description = ''Ensures a class has only one instance and provides global access to it''\<rparr>]\<rparr>) \<and>
   fst (Singleton_getInstance Singleton_init) = Inr (Obj 0)"
  using Singleton_constructor_guard [of Singleton_init "[CallGetInstance, CallNew, CallReset]"]
  by (simp add: Singleton_init_def Singleton_getInstance_def Singleton_new_def Singleton_reset_def)

lemma LazySingleton_get_instance_empty:
  "falsy (LazySingleton_instance t) \<Longrightarrow>
   LazySingleton_get_instance now t =
     (Obj (length (LazySingleton_objects t)),
      \<lparr>LazySingleton_instance = Obj (length (LazySingleton_objects t)),
       LazySingleton_objects = LazySingleton_objects t @ [\<lparr>data = ''Created at '' @ now\<rparr>]\<rparr>)"
  by (simp add: LazySingleton_get_instance_def LazySingleton_new_def)

lemma LazySingleton_get_instance_occupied:
  "LazySingleton_instance t = Obj r \<Longrightarrow> LazySingleton_get_instance now t = (Obj r, t)"
  by (simp add: LazySingleton_get_instance_def)

lemma not_falsy_Obj: "\<not> falsy x \<Longrightarrow> \<exists>r. x = Obj r"
  by (cases x) simp_all

text \<open>
  Claim C9. For \<open>Singleton.getInstance\<close> and for the getter \<open>LazySingleton.instance\<close>,
  from any state of the class: the first call returns an object, and a second call
  right after it returns the same address and leaves the class exactly as the first
  call left it: nothing is constructed and the slot is not written again. For the lazy
  singleton this holds whatever the clock shows at the two calls.
\<close>

theorem singleton_idempotent_access:
  "Singleton_getInstance (snd (Singleton_getInstance s)) = Singleton_getInstance s \<and>
   (\<exists>r. fst (Singleton_getInstance s) = Inr (Obj r)) \<and>
   LazySingleton_get_instance now2 (snd (LazySingleton_get_instance now1 t)) =
     LazySingleton_get_instance now1 t \<and>
   (\<exists>r. fst (LazySingleton_get_instance now1 t) = Obj r)"
proof -
  have S: "Singleton_getInstance (snd (Singleton_getInstance s)) = Singleton_getInstance s \<and>
   (\<exists>r. fst (Singleton_getInstance s) = Inr (Obj r))"
  proof (cases "falsy (Singleton_instance s)")
    case True
    then show ?thesis
      by (simp add: Singleton_getInstance_empty Singleton_getInstance_occupied)
  next
    case False
    then obtain r where "Singleton_instance s = Obj r"
      using not_falsy_Obj by blast
    then show ?thesis
      by (simp add: Singleton_getInstance_occupied)
  qed
  have L: "LazySingleton_get_instance now2 (snd (LazySingleton_get_instance now1 t)) =
     LazySingleton_get_instance now1 t \<and>
   (\<exists>r. fst (LazySingleton_get_instance now1 t) = Obj r)"
  proof (cases "falsy (LazySingleton_instance t)")
    case True
    then show ?thesis
      by (simp add: LazySingleton_get_instance_empty LazySingleton_get_instance_occupied)
  next
    case False
    then obtain r where "LazySingleton_instance t = Obj r"
      using not_falsy_Obj by blast
    then show ?thesis
      by (simp add: LazySingleton_get_instance_occupied)
  qed
  from S L show ?thesis by blast
qed

section \<open>Properties of the registry\<close>

lemma getInstance_present:
  "instances s key = Some v \<Longrightarrow> SingletonRegistry_getInstance key g s = (Inr v, s)"
  by (simp add: SingletonRegistry_getInstance_def Map_has_def Map_get_def)

lemma getInstance_absent_returns:
  "instances s key = None \<Longrightarrow> f s = (Inr v, s1) \<Longrightarrow>
   SingletonRegistry_getInstance key f s = (Inr v, s1\<lparr>instances := (instances s1)(key \<mapsto> v)\<rparr>)"
  by (simp add: SingletonRegistry_getInstance_def Map_has_def Map_get_def)

lemma getInstance_absent_throws:
  "instances s key = None \<Longrightarrow> f s = (Inl e, s1) \<Longrightarrow>
   SingletonRegistry_getInstance key f s = (Inl e, s1)"
  by (simp add: SingletonRegistry_getInstance_def Map_has_def)

lemma hasInstance_iff: "SingletonRegistry_hasInstance key s \<longleftrightarrow> instances s key \<noteq> None"
  by (simp add: SingletonRegistry_hasInstance_def Map_has_def split: option.split)

lemma Registry_step_keeps:
  assumes "no_reset_of key c" and "instances s key = Some v"
  shows "instances (Registry_step c s) key = Some v"
proof (cases c)
  case (CallGet k f)
  with assms(1) have keeps: "keeps_entry key f" by simp
  show ?thesis
  proof (cases "instances s k")
    case None
    with assms(2) have neq: "k \<noteq> key" by auto
    obtain res s1 where fs: "f s = (res, s1)" by (cases "f s")
    from keeps assms(2) fs have s1: "instances s1 key = Some v"
      unfolding keeps_entry_def by (metis snd_conv)
    show ?thesis
    proof (cases res)
      case (Inl e)
      with None fs s1 CallGet show ?thesis
        by (simp add: getInstance_absent_throws)
    next
      case (Inr w)
      with None fs s1 neq CallGet show ?thesis
        by (simp add: getInstance_absent_returns)
    qed
  next
    case (Some w)
    with assms(2) CallGet show ?thesis
      by (simp add: getInstance_present)
  qed
next
  case (CallResetKey k)
  with assms show ?thesis by (simp add: SingletonRegistry_reset_def)
next
  case CallResetAll
  with assms show ?thesis by simp
next
  case (CallHas k)
  with assms show ?thesis by simp
qed

lemma Registry_run_keeps:
  "\<forall>c \<in> set cs. no_reset_of key c \<Longrightarrow> instances s key = Some v \<Longrightarrow>
   instances (Registry_run cs s) key = Some v"
proof (induction cs arbitrary: s)
  case Nil
  then show ?case by simp
next
  case (Cons c cs)
  from Cons.prems have "instances (Registry_step c s) key = Some v"
    by (simp add: Registry_step_keeps)
  with Cons.IH Cons.prems(1) show ?case by simp
qed

text \<open>
  Claim C1. Take a key that the registry does not hold and a factory that returns a value
  \<open>v\<close>, leaving the state \<open>s1\<close>. The first \<open>getInstance(key, f)\<close> returns \<open>v\<close>, and the
  state after it is \<open>s1\<close>, the state after one run of \<open>f\<close>, with \<open>v\<close> stored
  under \<open>key\<close>. After any further calls on the registry that are no reset of \<open>key\<close>
  (no \<open>reset(key)\<close>, no \<open>resetAll()\<close>, no factory that does either), \<open>getInstance(key, g)\<close>
  returns the same \<open>v\<close> for every factory \<open>g\<close> and changes nothing: \<open>g\<close> has not run.
  When \<open>v\<close> is an object, it is the same address, not a copy.
\<close>

theorem SingletonRegistry_getInstance_identity:
  assumes absent: "\<not> SingletonRegistry_hasInstance key s"
      and returns: "f s = (Inr v, s1)"
      and later: "\<forall>c \<in> set cs. no_reset_of key c"
  shows "SingletonRegistry_getInstance key f s =
           (Inr v, s1\<lparr>instances := (instances s1)(key \<mapsto> v)\<rparr>) \<and>
         SingletonRegistry_getInstance key g
             (Registry_run cs (snd (SingletonRegistry_getInstance key f s))) =
           (Inr v, Registry_run cs (snd (SingletonRegistry_getInstance key f s)))"
proof -
  from absent have none: "instances s key = None"
    by (simp add: hasInstance_iff)
  have first: "SingletonRegistry_getInstance key f s =
      (Inr v, s1\<lparr>instances := (instances s1)(key \<mapsto> v)\<rparr>)"
    using none returns by (rule getInstance_absent_returns)
  then have "instances (snd (SingletonRegistry_getInstance key f s)) key = Some v"
    by simp
  with later have "instances (Registry_run cs (snd (SingletonRegistry_getInstance key f s))) key = Some v"
    by (rule Registry_run_keeps)
  then have "SingletonRegistry_getInstance key g
             (Registry_run cs (snd (SingletonRegistry_getInstance key f s))) =
           (Inr v, Registry_run cs (snd (SingletonRegistry_getInstance key f s)))"
    by (rule getInstance_present)
  with first show ?thesis by simp
qed

lemma keeps_entry_new_object_factory: "keeps_entry key new_object_factory"
  by (simp add: keeps_entry_def new_object_factory_def)

theorem SingletonRegistry_getInstance_identity_witness:
  "SingletonRegistry_getInstance ''TestSingleton'' new_object_factory
          \<lparr>instances = Map.empty, world = 0\<rparr> =
     (Inr (JObj 0), \<lparr>instances = [''TestSingleton'' \<mapsto> JObj 0], world = 1\<rparr>) \<and>
   fst (SingletonRegistry_getInstance ''TestSingleton'' new_object_factory
     (Registry_run [CallHas ''TestSingleton'', CallGet ''AnotherSingleton'' new_object_factory,
                    CallResetKey ''AnotherSingleton'']
        \<lparr>instances = [''TestSingleton'' \<mapsto> JObj 0], world = 1\<rparr>)) = Inr (JObj 0) \<and>
   world (snd (SingletonRegistry_getInstance ''TestSingleton'' new_object_factory
     (Registry_run [CallHas ''TestSingleton'', CallGet ''AnotherSingleton'' new_object_factory,
                    CallResetKey ''AnotherSingleton'']
        \<lparr>instances = [''TestSingleton'' \<mapsto> JObj 0], world = 1\<rparr>))) = 2"
proof -
  let ?s = "\<lparr>instances = Map.empty, world = 0::nat\<rparr>"
  let ?cs = "[CallHas ''TestSingleton'', CallGet ''AnotherSingleton'' new_object_factory,
              CallResetKey ''AnotherSingleton'']"
  have absent: "\<not> SingletonRegistry_hasInstance ''TestSingleton'' ?s"
    by (simp add: SingletonRegistry_hasInstance_def Map_has_def)
  have returns: "new_object_factory ?s = (Inr (JObj 0), ?s\<lparr>world := 1\<rparr>)"
    by (simp add: new_object_factory_def)
  have later: "\<forall>c \<in> set ?cs. no_reset_of ''TestSingleton'' c"
    by (simp add: keeps_entry_new_object_factory)
  have run: "world (Registry_run ?cs \<lparr>instances = [''TestSingleton'' \<mapsto> JObj 0], world = 1\<rparr>) = 2"
    by (simp add: SingletonRegistry_getInstance_def SingletonRegistry_reset_def
        new_object_factory_def Map_has_def Map_get_def)
  note both = SingletonRegistry_getInstance_identity
        [where key = "''TestSingleton''" and s = ?s and f = new_object_factory and v = "JObj 0"
           and ?s1.0 = "?s\<lparr>world := 1\<rparr>" and cs = ?cs and g = new_object_factory,
         OF absent returns later]
  from both have first:
    "SingletonRegistry_getInstance ''TestSingleton'' new_object_factory ?s =
       (Inr (JObj 0), \<lparr>instances = [''TestSingleton'' \<mapsto> JObj 0], world = 1\<rparr>)"
    by simp
  from both have second:
    "SingletonRegistry_getInstance ''TestSingleton'' new_object_factory
       (Registry_run ?cs \<lparr>instances = [''TestSingleton'' \<mapsto> JObj 0], world = 1\<rparr>) =
     (Inr (JObj 0), Registry_run ?cs \<lparr>instances = [''TestSingleton'' \<mapsto> JObj 0], world = 1\<rparr>)"
    unfolding first by simp
  show ?thesis
    unfolding first second using run by simp
qed

text \<open>
  Claim C6. Take a key that the registry does not hold and a factory that throws \<open>e\<close>,
  leaving the state \<open>s1\<close>. Then \<open>getInstance(key, f)\<close> throws the same \<open>e\<close> and the
  state after it is \<open>s1\<close>: the registry itself has written nothing. When the factory
  has not written the registry either (the factory without side effect of the
  specification), \<open>hasInstance(key)\<close> is false afterwards and the mapping is the one
  before the call.
\<close>

theorem SingletonRegistry_getInstance_factory_throws:
  assumes absent: "\<not> SingletonRegistry_hasInstance key s"
      and throws: "f s = (Inl e, s1)"
      and pure: "instances s1 = instances s"
  shows "SingletonRegistry_getInstance key f s = (Inl e, s1) \<and>
         \<not> SingletonRegistry_hasInstance key (snd (SingletonRegistry_getInstance key f s)) \<and>
         instances (snd (SingletonRegistry_getInstance key f s)) = instances s"
proof -
  from absent have none: "instances s key = None"
    by (simp add: hasInstance_iff)
  then have "SingletonRegistry_getInstance key f s = (Inl e, s1)"
    using throws by (rule getInstance_absent_throws)
  with none pure show ?thesis
    by (simp add: hasInstance_iff)
qed

theorem SingletonRegistry_getInstance_factory_throws_witness:
  "SingletonRegistry_getInstance ''A'' throwing_factory \<lparr>instances = [''B'' \<mapsto> JStr ''b''], world = 0\<rparr> =
     (Inl (Error ''factory failed''), \<lparr>instances = [''B'' \<mapsto> JStr ''b''], world = 0\<rparr>) \<and>
   \<not> SingletonRegistry_hasInstance ''A'' \<lparr>instances = [''B'' \<mapsto> JStr ''b''], world = (0::nat)\<rparr>"
  using SingletonRegistry_getInstance_factory_throws
    [of "''A''" "\<lparr>instances = [''B'' \<mapsto> JStr ''b''], world = 0\<rparr>" throwing_factory
        "Error ''factory failed''" "\<lparr>instances = [''B'' \<mapsto> JStr ''b''], world = 0\<rparr>"]
  by (simp add: throwing_factory_def SingletonRegistry_hasInstance_def Map_has_def)

section \<open>Properties of the builders\<close>

lemma call_setter_field:
  assumes "this < length (builders h)"
  shows "builder_field g (builders (snd (call_setter (f, v) this h)) ! this) =
           (if g = f then Some v else builder_field g (builders h ! this))"
  using assms
  by (cases f; cases g)
     (simp_all add: setCPU_def setRAM_def setStorage_def setGPU_def setPowerSupply_def
        setMotherboard_def)

lemma call_setter_frame:
  "fst (call_setter (f, v) this h) = this \<and>
   length (builders (snd (call_setter (f, v) this h))) = length (builders h) \<and>
   computers (snd (call_setter (f, v) this h)) = computers h"
  by (cases f)
     (simp_all add: setCPU_def setRAM_def setStorage_def setGPU_def setPowerSupply_def
        setMotherboard_def)

lemma call_chain_frame:
  "fst (call_chain cs this h) = this \<and>
   length (builders (snd (call_chain cs this h))) = length (builders h) \<and>
   computers (snd (call_chain cs this h)) = computers h"
proof (induction cs arbitrary: h)
  case Nil
  show ?case by simp
next
  case (Cons c cs)
  obtain f v where c: "c = (f, v)" by (cases c)
  obtain h1 where h1: "call_setter (f, v) this h = (this, h1)"
    using call_setter_frame [of f v this h] by (cases "call_setter (f, v) this h") simp
  from call_setter_frame [of f v this h] h1
  have "length (builders h1) = length (builders h)" "computers h1 = computers h"
    by simp_all
  with Cons.IH [of h1] c h1 show ?case by simp
qed

lemma call_chain_field:
  assumes "this < length (builders h)"
  shows "builder_field g (builders (snd (call_chain cs this h)) ! this) =
           (case last_passed g cs of
              None \<Rightarrow> builder_field g (builders h ! this)
            | Some v \<Rightarrow> Some v)"
  using assms
proof (induction cs arbitrary: h)
  case Nil
  show ?case by (simp add: last_passed_def)
next
  case (Cons c cs)
  obtain f v where c: "c = (f, v)" by (cases c)
  obtain h1 where h1: "call_setter (f, v) this h = (this, h1)"
    using call_setter_frame [of f v this h] by (cases "call_setter (f, v) this h") simp
  from call_setter_frame [of f v this h] h1 Cons.prems
  have valid1: "this < length (builders h1)" by simp
  from call_setter_field [OF Cons.prems, of g f v] h1
  have step: "builder_field g (builders h1 ! this) =
           (if g = f then Some v else builder_field g (builders h ! this))"
    by simp
  have "builder_field g (builders (snd (call_chain (c # cs) this h)) ! this) =
        builder_field g (builders (snd (call_chain cs this h1)) ! this)"
    using c h1 by simp
  also have "\<dots> = (case last_passed g cs of
              None \<Rightarrow> builder_field g (builders h1 ! this)
            | Some v \<Rightarrow> Some v)"
    by (rule Cons.IH [OF valid1])
  also have "\<dots> = (case last_passed g (c # cs) of
              None \<Rightarrow> builder_field g (builders h ! this)
            | Some v \<Rightarrow> Some v)"
    using step c by (simp add: last_passed_def map_add_def split: option.split)
  finally show ?case .
qed


lemma build_fails:
  "\<not> truthy (this_cpu (builders h ! this)) \<or> \<not> truthy (this_ram (builders h ! this)) \<or>
   \<not> truthy (this_storage (builders h ! this)) \<Longrightarrow>
   build this h = (Inl RequiredFieldsError, h)"
  by (simp add: build_def Let_def)

lemma build_succeeds:
  "truthy (this_cpu (builders h ! this)) \<Longrightarrow> truthy (this_ram (builders h ! this)) \<Longrightarrow>
   truthy (this_storage (builders h ! this)) \<Longrightarrow>
   build this h =
     (Inr (length (computers h)),
      h\<lparr>computers := computers h @
         [Computer_ctor (this_cpu (builders h ! this)) (this_ram (builders h ! this))
            (this_storage (builders h ! this)) (this_gpu (builders h ! this))
            (this_powerSupply (builders h ! this)) (this_motherboard (builders h ! this))]\<rparr>)"
  by (simp add: build_def Let_def Computer_new_def)

lemma Computer_ctor_field:
  "Computer_field f (Computer_ctor (this_cpu b) (this_ram b) (this_storage b)
      (this_gpu b) (this_powerSupply b) (this_motherboard b)) = builder_field f b"
  by (cases f) (simp_all add: Computer_ctor_def)

lemma Computer_ctor_features:
  "truthy c \<Longrightarrow> truthy r \<Longrightarrow> truthy s \<Longrightarrow> [] \<notin> set (features (Computer_ctor c r s g p m))"
  by (auto simp: Computer_ctor_def push_if_def truthy_def split: option.splits if_splits)

lemma all_fields_written:
  "(b :: ConcreteComputerBuilder)\<lparr>this_cpu := c, this_ram := r, this_storage := s,
      this_gpu := g, this_powerSupply := p, this_motherboard := m\<rparr> =
   \<lparr>this_cpu = c, this_ram = r, this_storage = s,
    this_gpu = g, this_powerSupply = p, this_motherboard = m\<rparr>"
  by (cases b) simp

lemma reset_effect:
  assumes "this < length (builders h)"
  shows "reset this h =
     (this, h\<lparr>builders := (builders h)[this :=
        \<lparr>this_cpu = [], this_ram = [], this_storage = [],
         this_gpu = Some [], this_powerSupply = Some [], this_motherboard = Some []\<rparr>]\<rparr>)"
  by (simp add: reset_def all_fields_written)

lemma builder_field_after_reset:
  "builder_field f \<lparr>this_cpu = [], this_ram = [], this_storage = [],
         this_gpu = Some [], this_powerSupply = Some [], this_motherboard = Some []\<rparr> = Some []"
  by (cases f) simp_all

text \<open>
  Claim C4 says that an optional field whose setter was never called is absent from the
  \<open>Computer\<close>, in every state of the builder. After \<open>reset()\<close> it is not: on a new
  builder, \<open>reset()\<close> and then the three required setters, \<open>build()\<close> succeeds, the
  setter of \<open>gpu\<close> was never called, and the \<open>Computer\<close> has \<open>gpu\<close> the empty string.
\<close>

theorem build_after_reset_optional_counterexample:
  "fst (build 0 (snd (call_chain [(CPU, ''X''), (RAM, ''Y''), (Storage, ''Z'')] 0
          (snd (reset 0 (snd (ConcreteComputerBuilder_new \<lparr>builders = [], computers = []\<rparr>))))))) =
     Inr 0 \<and>
   last_passed GPU [(CPU, ''X''), (RAM, ''Y''), (Storage, ''Z'')] = None \<and>
   gpu (computers (snd (build 0 (snd (call_chain [(CPU, ''X''), (RAM, ''Y''), (Storage, ''Z'')] 0
          (snd (reset 0 (snd (ConcreteComputerBuilder_new \<lparr>builders = [], computers = []\<rparr>)))))))) ! 0) =
     Some []"
  by (simp add: ConcreteComputerBuilder_new_def ConcreteComputerBuilder_fresh_def reset_def
      setCPU_def setRAM_def setStorage_def build_def Computer_new_def Computer_ctor_def
      truthy_def last_passed_def)

text \<open>
  Claim C4, amended. Take a builder in any state, make any chain of setter calls on it,
  and let the three required fields be set (truthy) afterwards. Then \<open>build()\<close> succeeds
  and returns a new \<open>Computer\<close>, at an address no earlier \<open>Computer\<close> has. Each of its six
  fields is what the builder holds, which is the value last passed to the setter of that
  field in the chain, or what the builder held before the chain when the setter was not
  called. So an optional field whose setter was not called is \<open>undefined\<close> in the
  \<open>Computer\<close> when the chain starts on a builder straight from \<open>new\<close>, and the empty
  string when the chain starts right after \<open>reset()\<close>.
\<close>

theorem build_returns_snapshot:
  assumes valid: "this < length (builders h)"
      and chain: "call_chain cs this h = (this1, h1)"
      and required: "truthy (this_cpu (builders h1 ! this1)) \<and> truthy (this_ram (builders h1 ! this1)) \<and>
                     truthy (this_storage (builders h1 ! this1))"
  shows "this1 = this \<and>
         (\<exists>p. build this1 h1 = (Inr (length (computers h1)), h1\<lparr>computers := computers h1 @ [p]\<rparr>) \<and>
            (\<forall>f. Computer_field f p = builder_field f (builders h1 ! this1)) \<and>
            (\<forall>f. Computer_field f p =
                   (case last_passed f cs of
                      None \<Rightarrow> builder_field f (builders h ! this)
                    | Some v \<Rightarrow> Some v)) \<and>
            (builders h ! this = ConcreteComputerBuilder_fresh \<longrightarrow>
               gpu p = last_passed GPU cs \<and> powerSupply p = last_passed PowerSupply cs \<and>
               motherboard p = last_passed Motherboard cs) \<and>
            (\<forall>h'. h = snd (reset this h') \<longrightarrow>
               (\<forall>f \<in> {GPU, PowerSupply, Motherboard}.
                  Computer_field f p =
                    (case last_passed f cs of None \<Rightarrow> Some [] | Some v \<Rightarrow> Some v))))"
proof -
  from call_chain_frame [of cs this h] chain have same: "this1 = this"
    by simp
  let ?b = "builders h1 ! this1"
  let ?p = "Computer_ctor (this_cpu ?b) (this_ram ?b) (this_storage ?b)
              (this_gpu ?b) (this_powerSupply ?b) (this_motherboard ?b)"
  from required
  have built: "build this1 h1 = (Inr (length (computers h1)), h1\<lparr>computers := computers h1 @ [?p]\<rparr>)"
    by (simp add: build_succeeds)
  have snapshot: "Computer_field f ?p = builder_field f ?b" for f
    by (rule Computer_ctor_field)
  have history: "Computer_field f ?p =
      (case last_passed f cs of None \<Rightarrow> builder_field f (builders h ! this) | Some v \<Rightarrow> Some v)" for f
    using call_chain_field [OF valid, of f cs] chain same snapshot [of f] by simp
  have fresh: "gpu ?p = last_passed GPU cs \<and> powerSupply ?p = last_passed PowerSupply cs \<and>
               motherboard ?p = last_passed Motherboard cs"
    if "builders h ! this = ConcreteComputerBuilder_fresh"
    using history [of GPU] history [of PowerSupply] history [of Motherboard] that
    by (simp add: ConcreteComputerBuilder_fresh_def split: option.splits)
  have cleared: "Computer_field f ?p =
      (case last_passed f cs of None \<Rightarrow> Some [] | Some v \<Rightarrow> Some v)"
    if after: "h = snd (reset this h')" for h' f
  proof -
    from after valid have valid': "this < length (builders h')"
      by (simp add: reset_def)
    from reset_effect [OF valid'] after valid'
    have "builder_field f (builders h ! this) = Some []"
      by (simp add: builder_field_after_reset)
    with history [of f] show ?thesis
      by (simp split: option.split)
  qed
  from same built snapshot history fresh cleared show ?thesis
    by blast
qed

theorem build_returns_snapshot_witness:
  "build 0 (snd (call_chain [(CPU, ''a''), (RAM, ''b''), (Storage, ''c''), (CPU, ''d''), (GPU, ''g'')] 0
      \<lparr>builders = [ConcreteComputerBuilder_fresh], computers = []\<rparr>)) =
     (Inr 0,
      \<lparr>builders = [\<lparr>this_cpu = ''d'', this_ram = ''b'', this_storage = ''c'',
                     this_gpu = Some ''g'', this_powerSupply = None, this_motherboard = None\<rparr>],
       computers = [\<lparr>name = ''Custom Computer'', features = [''d'', ''b'', ''c'', ''g''],
                      cpu = ''d'', ram = ''b'', storage = ''c'',
                      gpu = Some ''g'', powerSupply = None, motherboard = None\<rparr>]\<rparr>) \<and>
   last_passed CPU [(CPU, ''a''), (RAM, ''b''), (Storage, ''c''), (CPU, ''d''), (GPU, ''g'')] = Some ''d'' \<and>
   last_passed PowerSupply [(CPU, ''a''), (RAM, ''b''), (Storage, ''c''), (CPU, ''d''), (GPU, ''g'')] = None \<and>
   (\<exists>p. build 0 (snd (call_chain [(CPU, ''X''), (RAM, ''Y''), (Storage, ''Z'')] 0
            (snd (reset 0 \<lparr>builders = [ConcreteComputerBuilder_fresh], computers = []\<rparr>)))) =
          (Inr 0,
           \<lparr>builders = [\<lparr>this_cpu = ''X'', this_ram = ''Y'', this_storage = ''Z'',
               this_gpu = Some [], this_powerSupply = Some [], this_motherboard = Some []\<rparr>],
            computers = [p]\<rparr>) \<and>
        gpu p = Some [] \<and> powerSupply p = Some [] \<and> motherboard p = Some [])"
proof -
  let ?start = "\<lparr>builders = [ConcreteComputerBuilder_fresh], computers = []\<rparr>"
  let ?cs = "[(CPU, ''a''), (RAM, ''b''), (Storage, ''c''), (CPU, ''d''), (GPU, ''g'')]"
  let ?set = "\<lparr>builders = [\<lparr>this_cpu = ''d'', this_ram = ''b'', this_storage = ''c'',
                     this_gpu = Some ''g'', this_powerSupply = None, this_motherboard = None\<rparr>],
               computers = []\<rparr>"
  have valid: "0 < length (builders ?start)"
    by simp
  have chain: "call_chain ?cs 0 ?start = (0, ?set)"
    by (simp add: setCPU_def setRAM_def setStorage_def setGPU_def ConcreteComputerBuilder_fresh_def)
  have required: "truthy (this_cpu (builders ?set ! 0)) \<and> truthy (this_ram (builders ?set ! 0)) \<and>
                  truthy (this_storage (builders ?set ! 0))"
    by (simp add: truthy_def)
  from build_returns_snapshot [OF valid chain required]
  obtain p where p: "build 0 ?set = (Inr (length (computers ?set)), ?set\<lparr>computers := computers ?set @ [p]\<rparr>)"
    and fields: "\<forall>f. Computer_field f p = builder_field f (builders ?set ! 0)"
    by blast
  have one: "build 0 ?set = (Inr 0, ?set\<lparr>computers :=
     [\<lparr>name = ''Custom Computer'', features = [''d'', ''b'', ''c'', ''g''],
       cpu = ''d'', ram = ''b'', storage = ''c'',
       gpu = Some ''g'', powerSupply = None, motherboard = None\<rparr>]\<rparr>)"
    using p by (simp add: build_def Computer_new_def Computer_ctor_def push_if_def truthy_def)
  let ?rs = "[(CPU, ''X''), (RAM, ''Y''), (Storage, ''Z'')]"
  let ?cleared = "snd (reset 0 ?start)"
  let ?again = "\<lparr>builders = [\<lparr>this_cpu = ''X'', this_ram = ''Y'', this_storage = ''Z'',
               this_gpu = Some [], this_powerSupply = Some [], this_motherboard = Some []\<rparr>],
            computers = []\<rparr>"
  have valid2: "0 < length (builders ?cleared)"
    by (simp add: reset_def)
  have chain2: "call_chain ?rs 0 ?cleared = (0, ?again)"
    by (simp add: reset_def setCPU_def setRAM_def setStorage_def ConcreteComputerBuilder_fresh_def)
  have required2: "truthy (this_cpu (builders ?again ! 0)) \<and> truthy (this_ram (builders ?again ! 0)) \<and>
                   truthy (this_storage (builders ?again ! 0))"
    by (simp add: truthy_def)
  from build_returns_snapshot [OF valid2 chain2 required2]
  obtain q where q: "build 0 ?again = (Inr (length (computers ?again)), ?again\<lparr>computers := computers ?again @ [q]\<rparr>)"
    and after: "\<forall>f \<in> {GPU, PowerSupply, Motherboard}.
                  Computer_field f q =
                    (case last_passed f ?rs of None \<Rightarrow> Some [] | Some v \<Rightarrow> Some v)"
    by blast
  from after have "gpu q = Some [] \<and> powerSupply q = Some [] \<and> motherboard q = Some []"
    by (simp add: last_passed_def)
  with q have two: "\<exists>p. build 0 ?again = (Inr 0, ?again\<lparr>computers := [p]\<rparr>) \<and>
        gpu p = Some [] \<and> powerSupply p = Some [] \<and> motherboard p = Some []"
    by auto
  from one two show ?thesis
    unfolding chain chain2 by (simp add: last_passed_def)
qed

text \<open>
  Claim C8 says that no \<open>build()\<close> resets its builder. \<open>GenericBuilder.build()\<close> does:
  it calls \<open>this.reset()\<close> after \<open>buildImplementation()\<close>. On the sample subclass, a
  builder with its fields set is back at the field initialisers after \<open>build()\<close> has
  returned the product.
\<close>

theorem GenericBuilder_build_resets_counterexample:
  "GenericBuilder_build Sample_buildImplementation Sample_reset
     \<lparr>this_cpu = ''i5'', this_ram = ''16GB'', this_storage = ''1TB'',
      this_gpu = Some ''RTX'', this_powerSupply = None, this_motherboard = None\<rparr> =
     (Inr \<lparr>name = ''Custom Computer'', features = [''i5'', ''16GB'', ''1TB'', ''RTX''],
           cpu = ''i5'', ram = ''16GB'', storage = ''1TB'',
           gpu = Some ''RTX'', powerSupply = None, motherboard = None\<rparr>,
      \<lparr>this_cpu = [], this_ram = [], this_storage = [],
       this_gpu = None, this_powerSupply = None, this_motherboard = None\<rparr>) \<and>
   \<lparr>this_cpu = [], this_ram = [], this_storage = [],
    this_gpu = None, this_powerSupply = None, this_motherboard = None\<rparr> \<noteq>
   \<lparr>this_cpu = ''i5'', this_ram = ''16GB'', this_storage = ''1TB'',
    this_gpu = Some ''RTX'', this_powerSupply = None, this_motherboard = None\<rparr>"
  by (simp add: GenericBuilder_build_def Sample_buildImplementation_def Sample_reset_def
      ConcreteComputerBuilder_fresh_def Computer_ctor_def push_if_def truthy_def)

text \<open>
  Claim C8, amended. In \<open>ConcreteComputerBuilder\<close>, \<open>FluentComputerBuilder\<close> and
  \<open>StepComputerBuilder\<close>, \<open>build()\<close> leaves all builders as they were, whether it
  returns or throws: when it throws, nothing in the store has changed; when it returns,
  the one change is the new \<open>Computer\<close> appended to the store. These three never reset
  the builder. \<open>GenericBuilder.build()\<close> is the exception: when \<open>buildImplementation()\<close>
  returns, it calls \<open>this.reset()\<close> and leaves the state that \<open>reset()\<close> left, returning
  the product; when \<open>buildImplementation()\<close> throws, \<open>reset()\<close> is not called and the
  state is the one \<open>buildImplementation()\<close> left.
\<close>

theorem build_leaves_builder_unchanged:
  "builders (snd (build this h)) = builders h \<and>
   (\<forall>e. fst (build this h) = Inl e \<longrightarrow> snd (build this h) = h) \<and>
   (\<forall>r. fst (build this h) = Inr r \<longrightarrow>
      r = length (computers h) \<and> take r (computers (snd (build this h))) = computers h \<and>
      length (computers (snd (build this h))) = Suc r) \<and>
   builders (snd (Fluent_build this hf)) = builders hf \<and>
   (\<forall>e. fst (Fluent_build this hf) = Inl e \<longrightarrow> snd (Fluent_build this hf) = hf) \<and>
   builders (snd (Step_build this hs)) = builders hs \<and>
   (\<forall>e. fst (Step_build this hs) = Inl e \<longrightarrow> snd (Step_build this hs) = hs) \<and>
   (\<forall>e s1. impl s = (Inl e, s1) \<longrightarrow> GenericBuilder_build impl rst s = (Inl e, s1)) \<and>
   (\<forall>x s1 u s2. impl s = (Inr x, s1) \<and> rst s1 = (Inr u, s2) \<longrightarrow>
      GenericBuilder_build impl rst s = (Inr x, s2)) \<and>
   (\<forall>x s1 e s2. impl s = (Inr x, s1) \<and> rst s1 = (Inl e, s2) \<longrightarrow>
      GenericBuilder_build impl rst s = (Inl e, s2))"
proof -
  have concrete: "builders (snd (build this h)) = builders h \<and>
   (\<forall>e. fst (build this h) = Inl e \<longrightarrow> snd (build this h) = h) \<and>
   (\<forall>r. fst (build this h) = Inr r \<longrightarrow>
      r = length (computers h) \<and> take r (computers (snd (build this h))) = computers h \<and>
      length (computers (snd (build this h))) = Suc r)"
  proof (cases "truthy (this_cpu (builders h ! this)) \<and> truthy (this_ram (builders h ! this)) \<and>
              truthy (this_storage (builders h ! this))")
    case True
    then show ?thesis
      by (simp add: build_succeeds)
  next
    case False
    then have "build this h = (Inl RequiredFieldsError, h)"
      by (intro build_fails) blast
    then show ?thesis
      by simp
  qed
  have fluent: "builders (snd (Fluent_build this hf)) = builders hf \<and>
   (\<forall>e. fst (Fluent_build this hf) = Inl e \<longrightarrow> snd (Fluent_build this hf) = hf)"
    by (simp add: Fluent_build_def Computer_new_def Let_def)
  have step: "builders (snd (Step_build this hs)) = builders hs \<and>
   (\<forall>e. fst (Step_build this hs) = Inl e \<longrightarrow> snd (Step_build this hs) = hs)"
    by (simp add: Step_build_def Computer_new_def Let_def)
  have generic: "(\<forall>e s1. impl s = (Inl e, s1) \<longrightarrow> GenericBuilder_build impl rst s = (Inl e, s1)) \<and>
   (\<forall>x s1 u s2. impl s = (Inr x, s1) \<and> rst s1 = (Inr u, s2) \<longrightarrow>
      GenericBuilder_build impl rst s = (Inr x, s2)) \<and>
   (\<forall>x s1 e s2. impl s = (Inr x, s1) \<and> rst s1 = (Inl e, s2) \<longrightarrow>
      GenericBuilder_build impl rst s = (Inl e, s2))"
    by (simp add: GenericBuilder_build_def)
  from concrete fluent step generic show ?thesis
    by blast
qed

theorem build_leaves_builder_unchanged_witness:
  "build 0 \<lparr>builders = [ConcreteComputerBuilder_fresh], computers = []\<rparr> =
     (Inl RequiredFieldsError, \<lparr>builders = [ConcreteComputerBuilder_fresh], computers = []\<rparr>) \<and>
   fst (build 0 \<lparr>builders = [\<lparr>this_cpu = ''c'', this_ram = ''r'', this_storage = ''s'',
                     this_gpu = None, this_powerSupply = None, this_motherboard = None\<rparr>],
                 computers = []\<rparr>) = Inr 0 \<and>
   builders (snd (build 0 \<lparr>builders = [\<lparr>this_cpu = ''c'', this_ram = ''r'', this_storage = ''s'',
                     this_gpu = None, this_powerSupply = None, this_motherboard = None\<rparr>],
                 computers = []\<rparr>)) =
     [\<lparr>this_cpu = ''c'', this_ram = ''r'', this_storage = ''s'',
       this_gpu = None, this_powerSupply = None, this_motherboard = None\<rparr>] \<and>
   snd (GenericBuilder_build Sample_buildImplementation Sample_reset
     \<lparr>this_cpu = ''c'', this_ram = ''r'', this_storage = ''s'',
      this_gpu = None, this_powerSupply = None, this_motherboard = None\<rparr>) =
     ConcreteComputerBuilder_fresh"
proof -
  let ?b = "\<lparr>this_cpu = ''c'', this_ram = ''r'', this_storage = ''s'',
             this_gpu = None, this_powerSupply = None, this_motherboard = None\<rparr>"
  let ?empty = "\<lparr>builders = [ConcreteComputerBuilder_fresh], computers = []\<rparr>"
  let ?full = "\<lparr>builders = [?b], computers = []\<rparr>"
  have impl: "Sample_buildImplementation ?b =
      (Inr (Computer_ctor ''c'' ''r'' ''s'' None None None), ?b)"
    by (simp add: Sample_buildImplementation_def)
  have rst: "Sample_reset ?b = (Inr (), ConcreteComputerBuilder_fresh)"
    by (simp add: Sample_reset_def)
  have fails: "fst (build 0 ?empty) = Inl RequiredFieldsError"
    by (simp add: build_def ConcreteComputerBuilder_fresh_def truthy_def)
  have ok: "fst (build 0 ?full) = Inr 0"
    by (simp add: build_def Computer_new_def truthy_def)
  note a = build_leaves_builder_unchanged
    [where this = 0 and h = "?empty" and impl = Sample_buildImplementation and s = "?b"
       and rst = Sample_reset]
  note b = build_leaves_builder_unchanged
    [where this = 0 and h = "?full" and impl = Sample_buildImplementation and s = "?b"
       and rst = Sample_reset]
  from a fails have one: "build 0 ?empty = (Inl RequiredFieldsError, ?empty)"
    by (metis prod.collapse)
  from b have two: "builders (snd (build 0 ?full)) = [?b]"
    by simp
  from a impl rst
  have three: "GenericBuilder_build Sample_buildImplementation Sample_reset ?b =
      (Inr (Computer_ctor ''c'' ''r'' ''s'' None None None), ConcreteComputerBuilder_fresh)"
    by blast
  from one ok two three show ?thesis
    by simp
qed

text \<open>
  Claim C2 says that the error of \<open>build()\<close> names the first missing required field.
  It does not: a builder whose first missing field is \<open>cpu\<close> and one whose first missing
  field is \<open>storage\<close> fail with the same error, whose message lists all three fields.
\<close>

theorem build_error_names_no_field_counterexample:
  "fst (build 0 \<lparr>builders = [\<lparr>this_cpu = [], this_ram = ''16GB'', this_storage = ''1TB'',
                     this_gpu = None, this_powerSupply = None, this_motherboard = None\<rparr>],
                 computers = []\<rparr>) = Inl (Error ''CPU, RAM, and Storage are required'') \<and>
   fst (build 0 \<lparr>builders = [\<lparr>this_cpu = ''i5'', this_ram = ''16GB'', this_storage = [],
                     this_gpu = None, this_powerSupply = None, this_motherboard = None\<rparr>],
                 computers = []\<rparr>) = Inl (Error ''CPU, RAM, and Storage are required'') \<and>
   spec_first_missing \<lparr>this_cpu = [], this_ram = ''16GB'', this_storage = ''1TB'',
                     this_gpu = None, this_powerSupply = None, this_motherboard = None\<rparr> = Some ''cpu'' \<and>
   spec_first_missing \<lparr>this_cpu = ''i5'', this_ram = ''16GB'', this_storage = [],
                     this_gpu = None, this_powerSupply = None, this_motherboard = None\<rparr> = Some ''storage''"
  by (simp add: build_def RequiredFieldsError_def spec_first_missing_def truthy_def)

text \<open>
  Claim C2, amended. Whenever a required field (\<open>cpu\<close>, \<open>ram\<close> or \<open>storage\<close>) is
  unset, \<open>build()\<close> fails with the one error
  \<open>Error('CPU, RAM, and Storage are required')\<close>, whichever field is missing, and leaves
  the store unchanged; when none is missing it returns a new \<open>Computer\<close>.
\<close>

theorem build_missing_required_one_error:
  "(spec_first_missing (builders h ! this) \<noteq> None \<longrightarrow>
      build this h = (Inl (Error ''CPU, RAM, and Storage are required''), h)) \<and>
   (spec_first_missing (builders h ! this) = None \<longrightarrow>
      fst (build this h) = Inr (length (computers h)))"
proof (cases "truthy (this_cpu (builders h ! this)) \<and> truthy (this_ram (builders h ! this)) \<and>
              truthy (this_storage (builders h ! this))")
  case True
  then show ?thesis
    by (simp add: build_succeeds spec_first_missing_def)
next
  case False
  then have "build this h = (Inl RequiredFieldsError, h)"
    by (intro build_fails) blast
  with False show ?thesis
    by (auto simp: RequiredFieldsError_def spec_first_missing_def)
qed

theorem build_missing_required_one_error_witness:
  "spec_first_missing (builders \<lparr>builders = [\<lparr>this_cpu = ''i5'', this_ram = [], this_storage = [],
                     this_gpu = None, this_powerSupply = None, this_motherboard = None\<rparr>],
                 computers = []\<rparr> ! 0) = Some ''ram'' \<and>
   build 0 \<lparr>builders = [\<lparr>this_cpu = ''i5'', this_ram = [], this_storage = [],
                     this_gpu = None, this_powerSupply = None, this_motherboard = None\<rparr>],
                 computers = []\<rparr> =
     (Inl (Error ''CPU, RAM, and Storage are required''),
      \<lparr>builders = [\<lparr>this_cpu = ''i5'', this_ram = [], this_storage = [],
                     this_gpu = None, this_powerSupply = None, this_motherboard = None\<rparr>],
                 computers = []\<rparr>)"
  using build_missing_required_one_error [of "\<lparr>builders = [\<lparr>this_cpu = ''i5'', this_ram = [], this_storage = [],
                     this_gpu = None, this_powerSupply = None, this_motherboard = None\<rparr>],
                 computers = []\<rparr>" 0]
  by (simp add: spec_first_missing_def truthy_def)

text \<open>
  Claim C10. In each of the three builders (\<open>ConcreteComputerBuilder\<close>,
  \<open>FluentComputerBuilder\<close>, \<open>StepComputerBuilder\<close>) and whatever the builder holds
  before: after the setter of a required field (\<open>cpu\<close>, \<open>ram\<close> or \<open>storage\<close>) is
  called with the empty string, \<open>build()\<close> throws the required-field error. The test
  is the truthiness of the field, so the empty string counts as unset although the
  setter was called.
\<close>

theorem empty_string_required_field_is_unset:
  "(this < length (builders h) \<longrightarrow>
      fst (build this (snd (setCPU this [] h))) = Inl RequiredFieldsError \<and>
      fst (build this (snd (setRAM this [] h))) = Inl RequiredFieldsError \<and>
      fst (build this (snd (setStorage this [] h))) = Inl RequiredFieldsError) \<and>
   (this < length (builders hf) \<longrightarrow>
      fst (Fluent_build this (snd (Fluent_cpu this [] hf))) = Inl RequiredFieldsError \<and>
      fst (Fluent_build this (snd (Fluent_ram this [] hf))) = Inl RequiredFieldsError \<and>
      fst (Fluent_build this (snd (Fluent_storage this [] hf))) = Inl RequiredFieldsError) \<and>
   (this < length (builders hs) \<longrightarrow>
      fst (Step_build this (snd (Step_cpu this [] hs))) = Inl RequiredFieldsError \<and>
      fst (Step_build this (snd (Step_ram this [] hs))) = Inl RequiredFieldsError \<and>
      fst (Step_build this (snd (Step_storage this [] hs))) = Inl RequiredFieldsError)"
proof -
  have concrete: "fst (build this (snd (setCPU this [] h))) = Inl RequiredFieldsError \<and>
      fst (build this (snd (setRAM this [] h))) = Inl RequiredFieldsError \<and>
      fst (build this (snd (setStorage this [] h))) = Inl RequiredFieldsError"
    if "this < length (builders h)"
    using that by (simp add: build_def setCPU_def setRAM_def setStorage_def truthy_def)
  have fluent: "fst (Fluent_build this (snd (Fluent_cpu this [] hf))) = Inl RequiredFieldsError \<and>
      fst (Fluent_build this (snd (Fluent_ram this [] hf))) = Inl RequiredFieldsError \<and>
      fst (Fluent_build this (snd (Fluent_storage this [] hf))) = Inl RequiredFieldsError"
    if "this < length (builders hf)"
    using that
    by (simp add: Fluent_build_def Fluent_cpu_def Fluent_ram_def Fluent_storage_def
        truthy_opt_def truthy_def)
  have step: "fst (Step_build this (snd (Step_cpu this [] hs))) = Inl RequiredFieldsError \<and>
      fst (Step_build this (snd (Step_ram this [] hs))) = Inl RequiredFieldsError \<and>
      fst (Step_build this (snd (Step_storage this [] hs))) = Inl RequiredFieldsError"
    if "this < length (builders hs)"
    using that by (simp add: Step_build_def Step_cpu_def Step_ram_def Step_storage_def truthy_def)
  from concrete fluent step show ?thesis
    by blast
qed

theorem empty_string_required_field_is_unset_witness:
  "fst (build 0 (snd (setCPU 0 []
     \<lparr>builders = [\<lparr>this_cpu = ''i5'', this_ram = ''16GB'', this_storage = ''1TB'',
                    this_gpu = None, this_powerSupply = None, this_motherboard = None\<rparr>],
      computers = []\<rparr>))) = Inl (Error ''CPU, RAM, and Storage are required'') \<and>
   fst (build 0
     \<lparr>builders = [\<lparr>this_cpu = ''i5'', this_ram = ''16GB'', this_storage = ''1TB'',
                    this_gpu = None, this_powerSupply = None, this_motherboard = None\<rparr>],
      computers = []\<rparr>) = Inr 0 \<and>
   fst (Fluent_build 0 (snd (Fluent_ram 0 []
     \<lparr>builders = [\<lparr>computer_cpu = Some ''i5'', computer_ram = Some ''16GB'',
                    computer_storage = Some ''1TB'', computer_gpu = None,
                    computer_powerSupply = None, computer_motherboard = None\<rparr>],
      computers = []\<rparr>))) = Inl (Error ''CPU, RAM, and Storage are required'') \<and>
   fst (Step_build 0 (snd (Step_storage 0 []
     \<lparr>builders = [\<lparr>cpuValue = ''i5'', ramValue = ''16GB'', storageValue = ''1TB'',
                    gpuValue = None, powerSupplyValue = None, motherboardValue = None\<rparr>],
      computers = []\<rparr>))) = Inl (Error ''CPU, RAM, and Storage are required'')"
  using empty_string_required_field_is_unset
    [of 0 "\<lparr>builders = [\<lparr>this_cpu = ''i5'', this_ram = ''16GB'', this_storage = ''1TB'',
                    this_gpu = None, this_powerSupply = None, this_motherboard = None\<rparr>],
      computers = []\<rparr>"
      "\<lparr>builders = [\<lparr>computer_cpu = Some ''i5'', computer_ram = Some ''16GB'',
                    computer_storage = Some ''1TB'', computer_gpu = None,
                    computer_powerSupply = None, computer_motherboard = None\<rparr>],
      computers = []\<rparr>"
      "\<lparr>builders = [\<lparr>cpuValue = ''i5'', ramValue = ''16GB'', storageValue = ''1TB'',
                    gpuValue = None, powerSupplyValue = None, motherboardValue = None\<rparr>],
      computers = []\<rparr>"]
  by (simp add: RequiredFieldsError_def build_def Computer_new_def truthy_def)

lemma buildGamingComputer_result:
  assumes "builder d < length (builders h)"
  shows "buildGamingComputer d h =
     (Inr (length (computers h)),
      h\<lparr>builders := (builders h)[builder d :=
          \<lparr>this_cpu = ''Intel i9-11900K'', this_ram = ''32GB DDR4'',
           this_storage = ''1TB NVMe SSD'', this_gpu = Some ''RTX 3080'',
           this_powerSupply = Some ''850W Gold'',
           this_motherboard = Some ''ASUS ROG Strix Z590-E''\<rparr>],
       computers := computers h @ [gaming_computer]\<rparr>)"
  using assms
  by (simp add: buildGamingComputer_def reset_def setCPU_def setRAM_def setStorage_def
      setGPU_def setPowerSupply_def setMotherboard_def build_def Computer_new_def
      Computer_ctor_def push_if_def truthy_def gaming_computer_def all_fields_written)

text \<open>
  Claim C5. Two calls of \<open>buildGamingComputer()\<close> on a director, one after the other,
  both return. The two \<open>Computer\<close> objects have different addresses, both new when
  returned, and equal values: \<open>cpu\<close> is "Intel i9-11900K", \<open>ram\<close> is "32GB DDR4",
  \<open>storage\<close> is "1TB NVMe SSD" and \<open>gpu\<close> is "RTX 3080". The first object is not
  touched by the second call.
\<close>

theorem buildGamingComputer_twice:
  assumes valid: "builder d < length (builders h)"
      and first: "buildGamingComputer d h = (res1, h1)"
      and second: "buildGamingComputer d h1 = (res2, h2)"
  shows "\<exists>r1 r2. res1 = Inr r1 \<and> res2 = Inr r2 \<and> r1 \<noteq> r2 \<and>
           r1 < length (computers h2) \<and> r2 < length (computers h2) \<and>
           computers h1 ! r1 = computers h2 ! r1 \<and>
           computers h2 ! r1 = computers h2 ! r2 \<and>
           cpu (computers h2 ! r1) = ''Intel i9-11900K'' \<and>
           ram (computers h2 ! r1) = ''32GB DDR4'' \<and>
           storage (computers h2 ! r1) = ''1TB NVMe SSD'' \<and>
           gpu (computers h2 ! r1) = Some ''RTX 3080'' \<and>
           r1 \<notin> {..<length (computers h)} \<and> r2 \<notin> {..<length (computers h1)}"
proof -
  let ?n = "length (computers h)"
  from buildGamingComputer_result [OF valid] first
  have res1: "res1 = Inr ?n"
    and h1: "h1 = h\<lparr>builders := (builders h)[builder d :=
          \<lparr>this_cpu = ''Intel i9-11900K'', this_ram = ''32GB DDR4'',
           this_storage = ''1TB NVMe SSD'', this_gpu = Some ''RTX 3080'',
           this_powerSupply = Some ''850W Gold'',
           this_motherboard = Some ''ASUS ROG Strix Z590-E''\<rparr>],
       computers := computers h @ [gaming_computer]\<rparr>"
    by simp_all
  from h1 valid have valid1: "builder d < length (builders h1)"
    by simp
  from h1 have comps1: "computers h1 = computers h @ [gaming_computer]"
    by simp
  from buildGamingComputer_result [OF valid1] second
  have res2: "res2 = Inr (length (computers h1))"
    and comps2: "computers h2 = computers h1 @ [gaming_computer]"
    by simp_all
  from comps1 comps2 have comps: "computers h2 = computers h @ [gaming_computer, gaming_computer]"
    by simp
  have at1: "computers h2 ! ?n = gaming_computer"
    by (simp add: comps)
  have at2: "computers h2 ! Suc ?n = gaming_computer"
    by (simp add: comps nth_append)
  have at1': "computers h1 ! ?n = gaming_computer"
    by (simp add: comps1)
  have "res1 = Inr ?n \<and> res2 = Inr (Suc ?n) \<and> ?n \<noteq> Suc ?n \<and>
           ?n < length (computers h2) \<and> Suc ?n < length (computers h2) \<and>
           computers h1 ! ?n = computers h2 ! ?n \<and>
           computers h2 ! ?n = computers h2 ! Suc ?n \<and>
           cpu (computers h2 ! ?n) = ''Intel i9-11900K'' \<and>
           ram (computers h2 ! ?n) = ''32GB DDR4'' \<and>
           storage (computers h2 ! ?n) = ''1TB NVMe SSD'' \<and>
           gpu (computers h2 ! ?n) = Some ''RTX 3080'' \<and>
           ?n \<notin> {..<length (computers h)} \<and> Suc ?n \<notin> {..<length (computers h1)}"
    using res1 res2 comps1 at1 at2 at1' by (simp add: comps gaming_computer_def Computer_ctor_def)
  then show ?thesis
    by blast
qed

theorem buildGamingComputer_twice_witness:
  "buildGamingComputer \<lparr>builder = 0\<rparr> \<lparr>builders = [ConcreteComputerBuilder_fresh], computers = []\<rparr> =
     (Inr 0, \<lparr>builders = [\<lparr>this_cpu = ''Intel i9-11900K'', this_ram = ''32GB DDR4'',
           this_storage = ''1TB NVMe SSD'', this_gpu = Some ''RTX 3080'',
           this_powerSupply = Some ''850W Gold'',
           this_motherboard = Some ''ASUS ROG Strix Z590-E''\<rparr>], computers = [gaming_computer]\<rparr>) \<and>
   buildGamingComputer \<lparr>builder = 0\<rparr>
     \<lparr>builders = [\<lparr>this_cpu = ''Intel i9-11900K'', this_ram = ''32GB DDR4'',
           this_storage = ''1TB NVMe SSD'', this_gpu = Some ''RTX 3080'',
           this_powerSupply = Some ''850W Gold'',
           this_motherboard = Some ''ASUS ROG Strix Z590-E''\<rparr>], computers = [gaming_computer]\<rparr> =
     (Inr 1, \<lparr>builders = [\<lparr>this_cpu = ''Intel i9-11900K'', this_ram = ''32GB DDR4'',
           this_storage = ''1TB NVMe SSD'', this_gpu = Some ''RTX 3080'',
           this_powerSupply = Some ''850W Gold'',
           this_motherboard = Some ''ASUS ROG Strix Z590-E''\<rparr>],
        computers = [gaming_computer, gaming_computer]\<rparr>) \<and>
   (\<exists>r1 r2. (Inr 0 :: error + ref) = Inr r1 \<and> (Inr 1 :: error + ref) = Inr r2 \<and> r1 \<noteq> r2 \<and>
      [gaming_computer, gaming_computer] ! r1 = [gaming_computer, gaming_computer] ! r2)"
proof -
  let ?b = "\<lparr>this_cpu = ''Intel i9-11900K'', this_ram = ''32GB DDR4'',
           this_storage = ''1TB NVMe SSD'', this_gpu = Some ''RTX 3080'',
           this_powerSupply = Some ''850W Gold'',
           this_motherboard = Some ''ASUS ROG Strix Z590-E''\<rparr>"
  let ?h = "\<lparr>builders = [ConcreteComputerBuilder_fresh], computers = []\<rparr>"
  let ?h1 = "\<lparr>builders = [?b], computers = [gaming_computer]\<rparr>"
  let ?h2 = "\<lparr>builders = [?b], computers = [gaming_computer, gaming_computer]\<rparr>"
  have valid: "builder \<lparr>builder = 0\<rparr> < length (builders ?h)"
    by simp
  have first: "buildGamingComputer \<lparr>builder = 0\<rparr> ?h = (Inr 0, ?h1)"
    by (simp add: buildGamingComputer_result ConcreteComputerBuilder_fresh_def)
  have second: "buildGamingComputer \<lparr>builder = 0\<rparr> ?h1 = (Inr 1, ?h2)"
    by (simp add: buildGamingComputer_result)
  from buildGamingComputer_twice [OF valid first second]
  have "\<exists>r1 r2. (Inr 0 :: error + ref) = Inr r1 \<and> (Inr 1 :: error + ref) = Inr r2 \<and> r1 \<noteq> r2 \<and>
      [gaming_computer, gaming_computer] ! r1 = [gaming_computer, gaming_computer] ! r2"
    by simp
  with first second show ?thesis
    by blast
qed


text \<open>
  Claim C7 says that a builder after \<open>reset()\<close> is like a new one and that optional
  fields not set again are absent from the next \<open>Computer\<close>. They are not: \<open>reset()\<close>
  writes the empty string into the optional fields, where a new builder has
  \<open>undefined\<close>; the builder after \<open>reset()\<close> differs from a new one, and the
  \<open>Computer\<close> built after \<open>reset()\<close> has \<open>gpu\<close> the empty string, where the one
  built from a new builder has no \<open>gpu\<close>.
\<close>

theorem reset_not_fresh_counterexample:
  "builders (snd (reset 0 \<lparr>builders = [ConcreteComputerBuilder_fresh], computers = []\<rparr>)) \<noteq>
     [ConcreteComputerBuilder_fresh] \<and>
   gpu (computers (snd (build 0 (snd (call_chain [(CPU, ''X''), (RAM, ''Y''), (Storage, ''Z'')] 0
          (snd (reset 0 \<lparr>builders = [ConcreteComputerBuilder_fresh], computers = []\<rparr>)))))) ! 0) =
     Some [] \<and>
   gpu (computers (snd (build 0 (snd (call_chain [(CPU, ''X''), (RAM, ''Y''), (Storage, ''Z'')] 0
          \<lparr>builders = [ConcreteComputerBuilder_fresh], computers = []\<rparr>)))) ! 0) = None"
  by (simp add: reset_def setCPU_def setRAM_def setStorage_def build_def Computer_new_def
      Computer_ctor_def ConcreteComputerBuilder_fresh_def truthy_def)

lemma build_result_cases:
  "build this h = (Inl RequiredFieldsError, h) \<or>
   (truthy (this_cpu (builders h ! this)) \<and> truthy (this_ram (builders h ! this)) \<and>
    truthy (this_storage (builders h ! this)) \<and>
    build this h =
     (Inr (length (computers h)),
      h\<lparr>computers := computers h @
         [Computer_ctor (this_cpu (builders h ! this)) (this_ram (builders h ! this))
            (this_storage (builders h ! this)) (this_gpu (builders h ! this))
            (this_powerSupply (builders h ! this)) (this_motherboard (builders h ! this))]\<rparr>))"
  using build_fails [of h this] build_succeeds [of h this] by blast

text \<open>
  Claim C7, amended. \<open>reset()\<close> returns the builder it was called on and writes the
  empty string into each of its six fields, leaving the rest of the store as it was.
  After \<open>reset()\<close> and any chain of setter calls, every field holds the value last
  passed to its setter, or the empty string when the setter was not called again. If a
  required field was not set again, \<open>build()\<close> fails. If \<open>build()\<close> returns, the
  \<open>Computer\<close> has the empty string in each optional field that was not set again, and
  no empty string among its \<open>features\<close>.
\<close>

theorem reset_writes_empty_strings:
  assumes valid: "this < length (builders h)"
      and rst: "reset this h = (this0, h0)"
      and chain: "call_chain cs this0 h0 = (this1, h1)"
  shows "this0 = this \<and> this1 = this \<and>
         length (builders h0) = length (builders h) \<and> computers h0 = computers h \<and>
         (\<forall>f. builder_field f (builders h0 ! this) = Some []) \<and>
         (\<forall>f. builder_field f (builders h1 ! this) =
                (case last_passed f cs of None \<Rightarrow> Some [] | Some v \<Rightarrow> Some v)) \<and>
         ((\<exists>f \<in> {CPU, RAM, Storage}. last_passed f cs = None) \<longrightarrow>
            build this1 h1 = (Inl RequiredFieldsError, h1)) \<and>
         (\<forall>r h2. build this1 h1 = (Inr r, h2) \<longrightarrow>
            (\<forall>f. Computer_field f (computers h2 ! r) =
                   (case last_passed f cs of None \<Rightarrow> Some [] | Some v \<Rightarrow> Some v)) \<and>
            [] \<notin> set (features (computers h2 ! r)))"
proof -
  let ?e = "\<lparr>this_cpu = [], this_ram = [], this_storage = [],
         this_gpu = Some [], this_powerSupply = Some [], this_motherboard = Some []\<rparr>"
  from reset_effect [OF valid] rst
  have this0: "this0 = this" and h0: "h0 = h\<lparr>builders := (builders h)[this := ?e]\<rparr>"
    by simp_all
  from h0 valid have valid0: "this < length (builders h0)" and at0: "builders h0 ! this = ?e"
    by simp_all
  from h0 have frame0: "length (builders h0) = length (builders h) \<and> computers h0 = computers h"
    by simp
  from call_chain_frame [of cs this h0] chain this0 have this1: "this1 = this"
    by simp
  have cleared: "builder_field f (builders h0 ! this) = Some []" for f
    by (simp add: at0 builder_field_after_reset)
  have after: "builder_field f (builders h1 ! this) =
                (case last_passed f cs of None \<Rightarrow> Some [] | Some v \<Rightarrow> Some v)" for f
    using call_chain_field [OF valid0, of f cs] chain this0 cleared [of f]
    by (simp split: option.split)
  have fails: "build this1 h1 = (Inl RequiredFieldsError, h1)"
    if "\<exists>f \<in> {CPU, RAM, Storage}. last_passed f cs = None"
  proof -
    from that after [of CPU] after [of RAM] after [of Storage]
    have "\<not> truthy (this_cpu (builders h1 ! this)) \<or> \<not> truthy (this_ram (builders h1 ! this)) \<or>
          \<not> truthy (this_storage (builders h1 ! this))"
      by (auto simp: truthy_def)
    then show ?thesis
      unfolding this1 by (rule build_fails)
  qed
  have built: "(\<forall>f. Computer_field f (computers h2 ! r) =
                   (case last_passed f cs of None \<Rightarrow> Some [] | Some v \<Rightarrow> Some v)) \<and>
            [] \<notin> set (features (computers h2 ! r))"
    if ok: "build this1 h1 = (Inr r, h2)" for r h2
  proof -
    let ?b = "builders h1 ! this"
    let ?p = "Computer_ctor (this_cpu ?b) (this_ram ?b) (this_storage ?b)
                (this_gpu ?b) (this_powerSupply ?b) (this_motherboard ?b)"
    from build_result_cases [of this h1] ok this1
    have req: "truthy (this_cpu ?b)" "truthy (this_ram ?b)" "truthy (this_storage ?b)"
      and res: "build this h1 = (Inr (length (computers h1)), h1\<lparr>computers := computers h1 @ [?p]\<rparr>)"
      by auto
    from res ok this1 have "computers h2 ! r = ?p"
      by auto
    then show ?thesis
      using after Computer_ctor_field [of _ ?b] Computer_ctor_features [OF req] by simp
  qed
  from this0 this1 frame0 cleared after fails built show ?thesis
    by blast
qed


theorem reset_writes_empty_strings_witness:
  "reset 0 \<lparr>builders = [\<lparr>this_cpu = ''i9'', this_ram = ''32GB'', this_storage = ''1TB'',
                  this_gpu = Some ''RTX'', this_powerSupply = None, this_motherboard = None\<rparr>],
            computers = []\<rparr> =
     (0, \<lparr>builders = [\<lparr>this_cpu = [], this_ram = [], this_storage = [],
                  this_gpu = Some [], this_powerSupply = Some [], this_motherboard = Some []\<rparr>],
          computers = []\<rparr>) \<and>
   last_passed RAM [(CPU, ''X'')] = None \<and>
   build 0 \<lparr>builders = [\<lparr>this_cpu = ''X'', this_ram = [], this_storage = [],
                  this_gpu = Some [], this_powerSupply = Some [], this_motherboard = Some []\<rparr>],
            computers = []\<rparr> =
     (Inl RequiredFieldsError,
      \<lparr>builders = [\<lparr>this_cpu = ''X'', this_ram = [], this_storage = [],
                  this_gpu = Some [], this_powerSupply = Some [], this_motherboard = Some []\<rparr>],
            computers = []\<rparr>)"
proof -
  let ?start = "\<lparr>builders = [\<lparr>this_cpu = ''i9'', this_ram = ''32GB'', this_storage = ''1TB'',
                  this_gpu = Some ''RTX'', this_powerSupply = None, this_motherboard = None\<rparr>],
            computers = []\<rparr>"
  let ?cleared = "\<lparr>builders = [\<lparr>this_cpu = [], this_ram = [], this_storage = [],
                  this_gpu = Some [], this_powerSupply = Some [], this_motherboard = Some []\<rparr>],
          computers = []\<rparr>"
  let ?after = "\<lparr>builders = [\<lparr>this_cpu = ''X'', this_ram = [], this_storage = [],
                  this_gpu = Some [], this_powerSupply = Some [], this_motherboard = Some []\<rparr>],
            computers = []\<rparr>"
  have valid: "0 < length (builders ?start)"
    by simp
  have rst: "reset 0 ?start = (0, ?cleared)"
    by (simp add: reset_def)
  have chain: "call_chain [(CPU, ''X'')] 0 ?cleared = (0, ?after)"
    by (simp add: setCPU_def)
  have unset: "last_passed RAM [(CPU, ''X'')] = None"
    by (simp add: last_passed_def)
  then have "\<exists>f \<in> {CPU, RAM, Storage}. last_passed f [(CPU, ''X'')] = None"
    by blast
  with reset_writes_empty_strings [OF valid rst chain]
  have "build 0 ?after = (Inl RequiredFieldsError, ?after)"
    by blast
  with rst unset show ?thesis
    by blast
qed

end
